theory Spec2Isabelle
  imports Complex_Main "HOL-Library.Log_Nat" "HOL-Library.Multiset"
begin

section \<open>JavaScript numbers\<close>

text \<open>
  Every number of \<^verbatim>\<open>map.ts\<close> is an IEEE 754 binary64 value. A finite double is a
  rational, and each arithmetic operation returns the exact result rounded to the nearest
  double, ties to the even significand. \<open>toDouble\<close> is that rounding for the normal range
  (53 significant bits); overflow, subnormals, NaN and the sign of zero are outside the
  model, and no quantity of the terrain arithmetic (star counts, percentages, resources)
  comes near them.
\<close>

definition binade :: "rat \<Rightarrow> int" where
  \<comment> \<open>\<open>\<lfloor>log\<^sub>2 q\<rfloor>\<close> for \<open>0 < q\<close>, from the bit lengths of numerator and denominator\<close>
  "binade q = (case quotient_of q of (a, b) \<Rightarrow>
     (let k = bitlen a - bitlen b in if 2 powi k \<le> q then k else k - 1))"

definition roundTiesToEven :: "rat \<Rightarrow> int" where
  "roundTiesToEven m = (let f = \<lfloor>m\<rfloor>; d = m - of_int f in
     if d < 1 / 2 then f else if 1 / 2 < d then f + 1 else if even f then f else f + 1)"

definition toDouble :: "rat \<Rightarrow> rat" where
  "toDouble q = (if q = 0 then 0 else
     (let u = 2 powi (binade \<bar>q\<bar> - 52)
      in sgn q * of_int (roundTiesToEven (\<bar>q\<bar> / u)) * u))"

definition js_sub :: "rat \<Rightarrow> rat \<Rightarrow> rat" where
  "js_sub a b = toDouble (a - b)"

definition js_add :: "rat \<Rightarrow> rat \<Rightarrow> rat" where
  "js_add a b = toDouble (a + b)"

definition js_mul :: "rat \<Rightarrow> rat \<Rightarrow> rat" where
  "js_mul a b = toDouble (a * b)"

definition js_div :: "rat \<Rightarrow> rat \<Rightarrow> rat" where
  "js_div a b = toDouble (a / b)"

text \<open>\<^verbatim>\<open>array[i]\<close>: reading past the end gives \<^verbatim>\<open>undefined\<close>.\<close>

definition elemAt :: "'a list \<Rightarrow> nat \<Rightarrow> 'a option" where
  "elemAt xs i = (if i < length xs then Some (xs ! i) else None)"

text \<open>
  \<^verbatim>\<open>array.slice(0, end)\<close> for an integral \<open>end\<close>: a negative \<open>end\<close> counts from the
  end of the array, and the result never reaches past either end.
\<close>

definition slice0 :: "int \<Rightarrow> 'a list \<Rightarrow> 'a list" where
  "slice0 end xs =
     (if end < 0 then take (nat (int (length xs) + end)) xs else take (nat end) xs)"

section \<open>Data model\<close>

datatype error = ValidationError string | TypeError

record NaturalResources =
  economy :: rat
  industry :: rat
  science :: rat

text \<open>
  Modelled from the spec: the type \<^verbatim>\<open>Star\<close> (\<^verbatim>\<open>./types/Star\<close> is not among the sources),
  with the fields that \<^verbatim>\<open>map.ts\<close> reads or writes, and the name. \<open>star_id\<close> is \<^verbatim>\<open>_id\<close>: an
  object id, numbered here, and truthy whatever its number. An optional flag that is
  absent counts as \<open>False\<close>, as \<^verbatim>\<open>!s.warpGate\<close> has it. Every star has a
  \<^verbatim>\<open>naturalResources\<close> object of its own: a write to the resources of one star is a write
  to that star only.
\<close>

record Star =
  star_id :: nat
  name :: "string option"
  naturalResources :: NaturalResources
  homeStar :: bool
  warpGate :: bool
  wormHoleToStarId :: "nat option"
  isNebula :: bool
  isAsteroidField :: bool
  isBinaryStar :: bool
  isBlackHole :: bool
  isPulsar :: bool

text \<open>
  Modelled from the spec: the type \<^verbatim>\<open>Location\<close> (\<^verbatim>\<open>./types/Location\<close> is not among the
  sources): \<open>x\<close>, \<open>y\<close>, the optional flags \<^verbatim>\<open>homeStar\<close> and \<^verbatim>\<open>linked\<close>, and the optional
  \<^verbatim>\<open>linkedLocations\<close> and \<^verbatim>\<open>resources\<close>.
\<close>

datatype Location = Location
  (loc_x: rat) (loc_y: rat)
  (loc_homeStar: bool) (loc_linked: bool)
  (loc_linkedLocations: "Location list option")
  (loc_resources: "NaturalResources option")

text \<open>
  Modelled from the spec: the type \<^verbatim>\<open>Game\<close> (\<^verbatim>\<open>./types/Game\<close> is not among the sources),
  with the parts that \<^verbatim>\<open>map.ts\<close> reads: \<^verbatim>\<open>settings.galaxy.galaxyType\<close>,
  \<^verbatim>\<open>settings.specialGalaxy.*\<close>, \<^verbatim>\<open>settings.general.playerLimit\<close>,
  \<^verbatim>\<open>constants.star.resources.maxNaturalResources\<close> and \<^verbatim>\<open>galaxy.stars\<close>. A setting is a
  number; a pass is enabled when its percentage is not zero.
\<close>

record Game =
  galaxyType :: string
  resourceDistribution :: string
  general_playerLimit :: rat
  randomWarpGates :: rat
  randomWormHoles :: rat
  randomNebulas :: rat
  randomAsteroidFields :: rat
  randomBinaryStars :: rat
  randomBlackHoles :: rat
  randomPulsars :: rat
  maxNaturalResources :: rat
  galaxy_stars :: "Star list"

text \<open>
  The collaborators of \<^verbatim>\<open>MapService\<close>, none of them among the sources and all of them
  parameters here: the injected services, by the methods \<^verbatim>\<open>map.ts\<close> calls, and the imported
  \<^verbatim>\<open>shuffle\<close>. \<open>'r\<close> is the state of the seeded generator \<^verbatim>\<open>rand\<close>, \<open>'q\<close> the state of
  \<^verbatim>\<open>randomService\<close>, which is an object of its own and never sees \<^verbatim>\<open>rand\<close>. \<open>shuffle\<close>
  rearranges an array of star references in place: it takes the generator and the
  references and returns both. \<open>isSplitResources\<close> is a predicate on the settings. A
  collaborator that throws is outside the model.
\<close>

record ('r, 'q) MapService =
  shuffle :: "'r \<Rightarrow> nat list \<Rightarrow> nat list \<times> 'r"
  isDeadStar :: "Star \<Rightarrow> bool"
  isSplitResources :: "Game \<Rightarrow> bool"
  getRandomNumberBetween :: "'q \<Rightarrow> rat \<Rightarrow> rat \<Rightarrow> rat \<times> 'q"
  getRandomStarNames :: "nat \<Rightarrow> string list"
  generateUnownedStar :: "string option \<Rightarrow> Location \<Rightarrow> NaturalResources option \<Rightarrow> Star"
  generateCustomGalaxyStar :: "string option \<Rightarrow> Location \<Rightarrow> Star"
  circular_generateLocations :: "Game \<Rightarrow> nat \<Rightarrow> string \<Rightarrow> Location list"
  spiral_generateLocations :: "Game \<Rightarrow> nat \<Rightarrow> string \<Rightarrow> Location list"
  doughnut_generateLocations :: "Game \<Rightarrow> nat \<Rightarrow> string \<Rightarrow> Location list"
  circularBalanced_generateLocations :: "Game \<Rightarrow> nat \<Rightarrow> string \<Rightarrow> rat \<Rightarrow> Location list"
  irregular_generateLocations ::
    "'r \<Rightarrow> Game \<Rightarrow> nat \<Rightarrow> string \<Rightarrow> rat \<Rightarrow> string option \<Rightarrow> Location list \<times> 'r"
  custom_generateLocations :: "string option \<Rightarrow> rat \<Rightarrow> Location list"

section \<open>Terrain passes\<close>

text \<open>
  \<^verbatim>\<open>game.galaxy.stars\<close> is an array of objects that the passes mutate through references.
  The array is the store; a reference is an index into it. \<^verbatim>\<open>stars.filter(p)\<close> is the
  list of the references of the stars that satisfy \<open>p\<close>, in array order.
\<close>

definition applicableStars :: "(Star \<Rightarrow> bool) \<Rightarrow> Star list \<Rightarrow> nat list" where
  "applicableStars p ss = filter (\<lambda>i. p (ss ! i)) [0..<length ss]"

text \<open>\<^verbatim>\<open>for (let star of winners) { ... }\<close>, the body writing to \<^verbatim>\<open>star\<close> only.\<close>

fun markEach :: "(Star \<Rightarrow> Star) \<Rightarrow> nat list \<Rightarrow> Star list \<Rightarrow> Star list" where
  "markEach f [] ss = ss"
| "markEach f (i # is) ss = markEach f is (ss[i := f (ss ! i)])"

text \<open>The same loop with a body that also draws from \<^verbatim>\<open>randomService\<close>.\<close>

fun forEachStar ::
  "(Star \<Rightarrow> 'q \<Rightarrow> Star \<times> 'q) \<Rightarrow> nat list \<Rightarrow> Star list \<Rightarrow> 'q \<Rightarrow> Star list \<times> 'q" where
  "forEachStar body [] ss q = (ss, q)"
| "forEachStar body (i # is) ss q =
     (case body (ss ! i) q of (s', q') \<Rightarrow> forEachStar body is (ss[i := s']) q')"

definition generateGates ::
  "('r, 'q) MapService \<Rightarrow> 'r \<Rightarrow> Star list \<Rightarrow> rat \<Rightarrow> rat \<Rightarrow> Star list \<times> 'r" where
  "generateGates sv rand ss playerCount percentage =
     (let gateCount = \<lfloor>js_mul (js_div (js_sub (of_nat (length ss)) playerCount) 100) percentage\<rfloor>;
          applicable = applicableStars
            (\<lambda>s. \<not> homeStar s \<and> \<not> warpGate s \<and> \<not> isDeadStar sv s) ss
      in case shuffle sv rand applicable of (shuffled, rand') \<Rightarrow>
        (let warpGateStars = slice0 gateCount shuffled
         in (markEach (\<lambda>star. star\<lparr>warpGate := True\<rparr>) warpGateStars ss, rand')))"

text \<open>
  The pairing loop of \<^verbatim>\<open>_generateWormHoles\<close>, over the values of \<open>i\<close> still to run. A
  pair member read past the end of \<open>wormHoleStars\<close> is \<^verbatim>\<open>undefined\<close>, and the assignment
  that dereferences it throws a \<^verbatim>\<open>TypeError\<close> before it writes anything.
\<close>

fun wormHoleLoop :: "nat list \<Rightarrow> nat list \<Rightarrow> Star list \<Rightarrow> error + Star list" where
  "wormHoleLoop wormHoleStars [] ss = Inr ss"
| "wormHoleLoop wormHoleStars (i # is) ss =
     (case (elemAt wormHoleStars (i * 2), elemAt wormHoleStars (i * 2 + 1)) of
        (Some starA, Some starB) \<Rightarrow>
          (let ss1 = ss[starA := (ss ! starA)\<lparr>wormHoleToStarId := Some (star_id (ss ! starB))\<rparr>];
               ss2 = ss1[starB := (ss1 ! starB)\<lparr>wormHoleToStarId := Some (star_id (ss1 ! starA))\<rparr>]
           in wormHoleLoop wormHoleStars is ss2)
      | _ \<Rightarrow> Inl TypeError)"

definition generateWormHoles ::
  "('r, 'q) MapService \<Rightarrow> 'r \<Rightarrow> Game \<Rightarrow> Star list \<Rightarrow> rat \<Rightarrow> rat \<Rightarrow> error + Star list \<times> 'r" where
  "generateWormHoles sv rand game ss playerCount percentage =
     (let wormHoleCount =
            \<lfloor>js_mul (js_div (js_div (js_sub (of_nat (length ss)) playerCount) 2) 100) percentage\<rfloor>;
          applicable = applicableStars
            (\<lambda>s. \<not> homeStar s \<and> wormHoleToStarId s = None \<and> \<not> isDeadStar sv s) ss
      in case shuffle sv rand applicable of (shuffled, rand') \<Rightarrow>
        (let wormHoleStars = slice0 (wormHoleCount * 2) shuffled
         in case wormHoleLoop wormHoleStars [0..<nat wormHoleCount] ss of
              Inl e \<Rightarrow> Inl e
            | Inr ss' \<Rightarrow> Inr (ss', rand')))"

text \<open>
  The bodies of the loops of \<^verbatim>\<open>_generateNebulas\<close>, \<^verbatim>\<open>_generateAsteroidFields\<close>,
  \<^verbatim>\<open>_generateBinaryStars\<close> and \<^verbatim>\<open>_generateBlackHoles\<close>: the star and the random
  service before, the star and the random service after.
\<close>

definition nebulaBody :: "('r, 'q) MapService \<Rightarrow> Game \<Rightarrow> Star \<Rightarrow> 'q \<Rightarrow> Star \<times> 'q" where
  "nebulaBody sv game nebulaStar q =
     (let marked = nebulaStar\<lparr>isNebula := True\<rparr>
      in if isSplitResources sv game then
           (let minResources = js_mul (maxNaturalResources game) (3 / 2);
                maxResources = js_mul (maxNaturalResources game) 3
            in case getRandomNumberBetween sv q minResources maxResources of
                 (v, q') \<Rightarrow>
                   (marked\<lparr>naturalResources := (naturalResources marked)\<lparr>science := v\<rparr>\<rparr>, q'))
         else (marked, q))"

definition generateNebulas ::
  "('r, 'q) MapService \<Rightarrow> 'r \<Rightarrow> 'q \<Rightarrow> Game \<Rightarrow> Star list \<Rightarrow> rat \<Rightarrow> rat \<Rightarrow> Star list \<times> 'r \<times> 'q" where
  "generateNebulas sv rand q game ss playerCount percentage =
     (let count = \<lfloor>js_mul (js_div (js_sub (of_nat (length ss)) playerCount) 100) percentage\<rfloor>;
          applicable = applicableStars
            (\<lambda>s. \<not> homeStar s \<and> \<not> isNebula s \<and> \<not> isDeadStar sv s) ss
      in case shuffle sv rand applicable of (shuffled, rand') \<Rightarrow>
        (let nebulaStars = slice0 count shuffled
         in case forEachStar (nebulaBody sv game) nebulaStars ss q of
              (ss', q') \<Rightarrow> (ss', rand', q')))"

definition asteroidFieldBody :: "('r, 'q) MapService \<Rightarrow> Game \<Rightarrow> Star \<Rightarrow> 'q \<Rightarrow> Star \<times> 'q" where
  "asteroidFieldBody sv game asteroidFieldStar q =
     (let marked = asteroidFieldStar\<lparr>isAsteroidField := True\<rparr>
      in if isSplitResources sv game then
           (let minResources = js_mul (maxNaturalResources game) (3 / 2);
                maxResources = js_mul (maxNaturalResources game) 3
            in case getRandomNumberBetween sv q minResources maxResources of
                 (v, q') \<Rightarrow>
                   (marked\<lparr>naturalResources := (naturalResources marked)\<lparr>economy := v\<rparr>\<rparr>, q'))
         else (marked, q))"

definition generateAsteroidFields ::
  "('r, 'q) MapService \<Rightarrow> 'r \<Rightarrow> 'q \<Rightarrow> Game \<Rightarrow> Star list \<Rightarrow> rat \<Rightarrow> rat \<Rightarrow> Star list \<times> 'r \<times> 'q" where
  "generateAsteroidFields sv rand q game ss playerCount percentage =
     (let count = \<lfloor>js_mul (js_div (js_sub (of_nat (length ss)) playerCount) 100) percentage\<rfloor>;
          applicable = applicableStars
            (\<lambda>s. \<not> homeStar s \<and> \<not> isAsteroidField s \<and> \<not> isDeadStar sv s) ss
      in case shuffle sv rand applicable of (shuffled, rand') \<Rightarrow>
        (let asteroidFieldStars = slice0 count shuffled
         in case forEachStar (asteroidFieldBody sv game) asteroidFieldStars ss q of
              (ss', q') \<Rightarrow> (ss', rand', q')))"

definition binaryStarBody ::
  "('r, 'q) MapService \<Rightarrow> Game \<Rightarrow> rat \<Rightarrow> rat \<Rightarrow> Star \<Rightarrow> 'q \<Rightarrow> Star \<times> 'q" where
  "binaryStarBody sv game minResources maxResources binaryStar q =
     (let marked = binaryStar\<lparr>isBinaryStar := True\<rparr>
      in if isSplitResources sv game then
           (case getRandomNumberBetween sv q minResources maxResources of
              (v, q') \<Rightarrow>
                (marked\<lparr>naturalResources := (naturalResources marked)\<lparr>industry := v\<rparr>\<rparr>, q'))
         else
           (case getRandomNumberBetween sv q minResources maxResources of
              (resources, q') \<Rightarrow>
                (marked\<lparr>naturalResources :=
                   \<lparr>economy = resources, industry = resources, science = resources\<rparr>\<rparr>, q')))"

definition generateBinaryStars ::
  "('r, 'q) MapService \<Rightarrow> 'r \<Rightarrow> 'q \<Rightarrow> Game \<Rightarrow> Star list \<Rightarrow> rat \<Rightarrow> rat \<Rightarrow> Star list \<times> 'r \<times> 'q" where
  "generateBinaryStars sv rand q game ss playerCount percentage =
     (let minResources = js_mul (maxNaturalResources game) (3 / 2);
          maxResources = js_mul (maxNaturalResources game) 3;
          count = \<lfloor>js_mul (js_div (js_sub (of_nat (length ss)) playerCount) 100) percentage\<rfloor>;
          applicable = applicableStars
            (\<lambda>s. \<not> homeStar s \<and> \<not> isBinaryStar s \<and> \<not> isDeadStar sv s) ss
      in case shuffle sv rand applicable of (shuffled, rand') \<Rightarrow>
        (let binaryStars = slice0 count shuffled
         in case forEachStar (binaryStarBody sv game minResources maxResources) binaryStars ss q of
              (ss', q') \<Rightarrow> (ss', rand', q')))"

text \<open>The literal \<^verbatim>\<open>0.2\<close> is the double nearest to one fifth.\<close>

definition blackHoleResource :: "rat \<Rightarrow> rat" where
  "blackHoleResource v = of_int \<lceil>js_mul v (toDouble (1 / 5))\<rceil>"

definition blackHoleBody :: "Star \<Rightarrow> Star" where
  "blackHoleBody blackHoleStar =
     (let s0 = blackHoleStar\<lparr>isBlackHole := True\<rparr>;
          s1 = s0\<lparr>naturalResources := (naturalResources s0)
                 \<lparr>economy := blackHoleResource (economy (naturalResources s0))\<rparr>\<rparr>;
          s2 = s1\<lparr>naturalResources := (naturalResources s1)
                 \<lparr>industry := blackHoleResource (industry (naturalResources s1))\<rparr>\<rparr>
      in s2\<lparr>naturalResources := (naturalResources s2)
            \<lparr>science := blackHoleResource (science (naturalResources s2))\<rparr>\<rparr>)"

definition generateBlackHoles ::
  "('r, 'q) MapService \<Rightarrow> 'r \<Rightarrow> Game \<Rightarrow> Star list \<Rightarrow> rat \<Rightarrow> rat \<Rightarrow> Star list \<times> 'r" where
  "generateBlackHoles sv rand game ss playerCount percentage =
     (let count = \<lfloor>js_mul (js_div (js_sub (of_nat (length ss)) playerCount) 100) percentage\<rfloor>;
          applicable = applicableStars
            (\<lambda>s. \<not> homeStar s \<and> \<not> isBlackHole s \<and> \<not> isDeadStar sv s) ss
      in case shuffle sv rand applicable of (shuffled, rand') \<Rightarrow>
        (let blackHoleStars = slice0 count shuffled
         in (markEach blackHoleBody blackHoleStars ss, rand')))"

definition generatePulsars ::
  "('r, 'q) MapService \<Rightarrow> 'r \<Rightarrow> Game \<Rightarrow> Star list \<Rightarrow> rat \<Rightarrow> rat \<Rightarrow> Star list \<times> 'r" where
  "generatePulsars sv rand game ss playerCount percentage =
     (let count = \<lfloor>js_mul (js_div (js_sub (of_nat (length ss)) playerCount) 100) percentage\<rfloor>;
          applicable = applicableStars
            (\<lambda>s. \<not> homeStar s \<and> \<not> isPulsar s \<and> \<not> isDeadStar sv s) ss
      in case shuffle sv rand applicable of (shuffled, rand') \<Rightarrow>
        (let pulsarStars = slice0 count shuffled
         in (markEach (\<lambda>pulsarStar. pulsarStar\<lparr>isPulsar := True\<rparr>) pulsarStars ss, rand')))"

text \<open>
  \<^verbatim>\<open>generateTerrain\<close>: the seven passes in the order of the source, each behind its
  setting (a number is truthy when it is not zero). The stars, the generator and the
  random service go from pass to pass; a \<^verbatim>\<open>TypeError\<close> of the wormhole pass ends the
  call.
\<close>

definition generateTerrain ::
  "('r, 'q) MapService \<Rightarrow> 'r \<Rightarrow> 'q \<Rightarrow> Game \<Rightarrow> error + Game \<times> 'r \<times> 'q" where
  "generateTerrain sv rand q game =
     (let playerCount = general_playerLimit game
      in case (if randomWarpGates game \<noteq> 0
               then generateGates sv rand (galaxy_stars game) playerCount (randomWarpGates game)
               else (galaxy_stars game, rand)) of
        (ss1, r1) \<Rightarrow>
      (case (if randomWormHoles game \<noteq> 0
             then generateWormHoles sv r1 game ss1 playerCount (randomWormHoles game)
             else Inr (ss1, r1)) of
         Inl e \<Rightarrow> Inl e
       | Inr (ss2, r2) \<Rightarrow>
      (case (if randomNebulas game \<noteq> 0
             then generateNebulas sv r2 q game ss2 playerCount (randomNebulas game)
             else (ss2, r2, q)) of
        (ss3, r3, q3) \<Rightarrow>
      (case (if randomAsteroidFields game \<noteq> 0
             then generateAsteroidFields sv r3 q3 game ss3 playerCount (randomAsteroidFields game)
             else (ss3, r3, q3)) of
        (ss4, r4, q4) \<Rightarrow>
      (case (if randomBinaryStars game \<noteq> 0
             then generateBinaryStars sv r4 q4 game ss4 playerCount (randomBinaryStars game)
             else (ss4, r4, q4)) of
        (ss5, r5, q5) \<Rightarrow>
      (case (if randomBlackHoles game \<noteq> 0
             then generateBlackHoles sv r5 game ss5 playerCount (randomBlackHoles game)
             else (ss5, r5)) of
        (ss6, r6) \<Rightarrow>
      (case (if randomPulsars game \<noteq> 0
             then generatePulsars sv r6 game ss6 playerCount (randomPulsars game)
             else (ss6, r6)) of
        (ss7, r7) \<Rightarrow> Inr (game\<lparr>galaxy_stars := ss7\<rparr>, r7, q5))))))))"

section \<open>Star generation\<close>

text \<open>
  What \<^verbatim>\<open>generateStars\<close> returns: the stars, the ids of the home stars and, aligned with
  them, the ids of each home star's linked stars. The fourth component of the source,
  \<^verbatim>\<open>starLocations\<close> (the strategy's locations, annotated with the names for the
  carriers), is left out.
\<close>

record AssemblyResult =
  stars :: "Star list"
  homeStars :: "nat list"
  linkedStars :: "nat list list"

definition makeStar ::
  "('r, 'q) MapService \<Rightarrow> bool \<Rightarrow> string option \<Rightarrow> Location \<Rightarrow> Star" where
  "makeStar sv isCustomGalaxy starName starLocation =
     (if isCustomGalaxy then generateCustomGalaxyStar sv starName starLocation
      else generateUnownedStar sv starName starLocation (loc_resources starLocation))"

text \<open>
  The inner loop over \<^verbatim>\<open>starLocation.linkedLocations\<close>: the stars so far, the ids of
  \<^verbatim>\<open>locLinkedStars\<close> and \<^verbatim>\<open>starNamesIndex\<close>. \<^verbatim>\<open>starNames[starNamesIndex++]\<close> past the
  end of the pool is \<^verbatim>\<open>undefined\<close>, and the factory is called with it.
\<close>

fun linkedLoop ::
  "('r, 'q) MapService \<Rightarrow> bool \<Rightarrow> string list \<Rightarrow> Location list \<Rightarrow>
   Star list \<times> nat list \<times> nat \<Rightarrow> Star list \<times> nat list \<times> nat" where
  "linkedLoop sv isCustomGalaxy starNames [] st = st"
| "linkedLoop sv isCustomGalaxy starNames (linkedLocation # rest) (created, locLinkedStars, starNamesIndex) =
     (let linkedStarName = elemAt starNames starNamesIndex;
          linkedStar = makeStar sv isCustomGalaxy linkedStarName linkedLocation
      in linkedLoop sv isCustomGalaxy starNames rest
           (created @ [linkedStar], locLinkedStars @ [star_id linkedStar], starNamesIndex + 1))"

text \<open>
  The loop over \<^verbatim>\<open>unlinkedStars\<close>. An error carries the stars created before it was
  raised: a home location without \<^verbatim>\<open>linkedLocations\<close> makes \<^verbatim>\<open>for ... of\<close> throw a
  \<^verbatim>\<open>TypeError\<close> after the home star has been pushed.
\<close>

fun starLoop ::
  "('r, 'q) MapService \<Rightarrow> bool \<Rightarrow> string list \<Rightarrow> Location list \<Rightarrow>
   AssemblyResult \<times> nat \<Rightarrow> error \<times> Star list + AssemblyResult \<times> nat" where
  "starLoop sv isCustomGalaxy starNames [] st = Inr st"
| "starLoop sv isCustomGalaxy starNames (starLocation # rest) (res, starNamesIndex) =
     (let starName = elemAt starNames starNamesIndex;
          star = makeStar sv isCustomGalaxy starName starLocation;
          created = stars res @ [star]
      in if loc_homeStar starLocation then
           (case loc_linkedLocations starLocation of
              None \<Rightarrow> Inl (TypeError, created)
            | Some linkedLocations \<Rightarrow>
                (case linkedLoop sv isCustomGalaxy starNames linkedLocations
                        (created, [], starNamesIndex + 1) of
                   (created', locLinkedStars, starNamesIndex') \<Rightarrow>
                     starLoop sv isCustomGalaxy starNames rest
                       (\<lparr>stars = created', homeStars = homeStars res @ [star_id star],
                         linkedStars = linkedStars res @ [locLinkedStars]\<rparr>, starNamesIndex')))
         else starLoop sv isCustomGalaxy starNames rest
                (res\<lparr>stars := created\<rparr>, starNamesIndex + 1))"

text \<open>
  The \<^verbatim>\<open>switch\<close> of \<^verbatim>\<open>generateStars\<close> on the galaxy type: the locations of the chosen
  strategy (and the generator, which the irregular strategy draws from), or the
  \<^verbatim>\<open>ValidationError\<close> of the default branch, raised while \<^verbatim>\<open>stars\<close> is still empty.
\<close>

definition strategyLocations ::
  "('r, 'q) MapService \<Rightarrow> 'r \<Rightarrow> Game \<Rightarrow> nat \<Rightarrow> rat \<Rightarrow> string option \<Rightarrow> string option \<Rightarrow>
   error \<times> Star list + Location list \<times> 'r" where
  "strategyLocations sv rand game starCount playerLimit customJSON customSeed =
     (let t = galaxyType game
      in if t = ''circular'' then
           Inr (circular_generateLocations sv game starCount (resourceDistribution game), rand)
         else if t = ''spiral'' then
           Inr (spiral_generateLocations sv game starCount (resourceDistribution game), rand)
         else if t = ''doughnut'' then
           Inr (doughnut_generateLocations sv game starCount (resourceDistribution game), rand)
         else if t = ''circular-balanced'' then
           Inr (circularBalanced_generateLocations sv game starCount
                  (resourceDistribution game) playerLimit, rand)
         else if t = ''irregular'' then
           Inr (irregular_generateLocations sv rand game starCount
                  (resourceDistribution game) playerLimit customSeed)
         else if t = ''custom'' then
           Inr (custom_generateLocations sv customJSON playerLimit, rand)
         else
           Inl (ValidationError
                  (''Galaxy type '' @ t @ '' is not supported or has been disabled.''), []))"

definition generateStars ::
  "('r, 'q) MapService \<Rightarrow> 'r \<Rightarrow> Game \<Rightarrow> nat \<Rightarrow> rat \<Rightarrow> string option \<Rightarrow> string option \<Rightarrow>
   error \<times> Star list + AssemblyResult \<times> 'r" where
  "generateStars sv rand game starCount playerLimit customJSON customSeed =
     (let starNames = getRandomStarNames sv starCount
      in case strategyLocations sv rand game starCount playerLimit customJSON customSeed of
           Inl e \<Rightarrow> Inl e
         | Inr (starLocations, rand') \<Rightarrow>
             (let isCustomGalaxy = (galaxyType game = ''custom'');
                  unlinkedStars = filter (\<lambda>l. \<not> loc_linked l) starLocations
              in case starLoop sv isCustomGalaxy starNames unlinkedStars
                        (\<lparr>stars = [], homeStars = [], linkedStars = []\<rparr>, 0) of
                   Inl e \<Rightarrow> Inl e
                 | Inr (res, starNamesIndex) \<Rightarrow> Inr (res, rand')))"

text \<open>
  The locations in the order in which \<^verbatim>\<open>generateStars\<close> makes their stars: each
  location that is not \<^verbatim>\<open>linked\<close>, a home location followed by its linked locations.
\<close>

definition creationOrder :: "Location list \<Rightarrow> Location list" where
  "creationOrder starLocations =
     concat (map (\<lambda>l. l # (if loc_homeStar l
                            then (case loc_linkedLocations l of None \<Rightarrow> [] | Some ls \<Rightarrow> ls)
                            else []))
               (filter (\<lambda>l. \<not> loc_linked l) starLocations))"

section \<open>Geometry\<close>

text \<open>
  \<^verbatim>\<open>Array.prototype.sort\<close> sorts the array it is called on, in place, and is stable. The
  comparator \<^verbatim>\<open>(a, b) => b.x - a.x\<close> orders by descending \<open>x\<close>, that is by ascending
  \<open>- x\<close>. Each function returns its result and the array as the call leaves it.
\<close>

definition getGalaxyCenter :: "Location list \<Rightarrow> (rat \<times> rat) \<times> Location list" where
  "getGalaxyCenter starLocations =
     (if starLocations = [] then ((0, 0), starLocations)
      else
        (let byMaxX = sort_key (\<lambda>l. - loc_x l) starLocations;
             maxX = loc_x (hd byMaxX);
             byMaxY = sort_key (\<lambda>l. - loc_y l) byMaxX;
             maxY = loc_y (hd byMaxY);
             byMinX = sort_key loc_x byMaxY;
             minX = loc_x (hd byMinX);
             byMinY = sort_key loc_y byMinX;
             minY = loc_y (hd byMinY)
         in ((js_div (js_add minX maxX) 2, js_div (js_add minY maxY) 2), byMinY)))"

definition getGalaxyCenterOfMass :: "Location list \<Rightarrow> (rat \<times> rat) \<times> Location list" where
  "getGalaxyCenterOfMass starLocations =
     (if starLocations = [] then ((0, 0), starLocations)
      else
        (let totalX = foldl (\<lambda>total s. js_add total (loc_x s)) 0 starLocations;
             totalY = foldl (\<lambda>total s. js_add total (loc_y s)) 0 starLocations
         in ((js_div totalX (of_nat (length starLocations)),
              js_div totalY (of_nat (length starLocations))), starLocations)))"

section \<open>Notions for the properties\<close>

text \<open>
  What is asked of \<^verbatim>\<open>shuffle\<close>: whatever the generator, the array it leaves is a
  permutation of the array it was given.
\<close>

definition permuting :: "('r \<Rightarrow> nat list \<Rightarrow> nat list \<times> 'r) \<Rightarrow> bool" where
  "permuting sh = (\<forall>r xs. mset (fst (sh r xs)) = mset xs)"

text \<open>The count of a single-star pass and of the wormhole pass, as the passes compute them.\<close>

definition featureCount :: "nat \<Rightarrow> rat \<Rightarrow> rat \<Rightarrow> int" where
  "featureCount n playerCount percentage =
     \<lfloor>js_mul (js_div (js_sub (of_nat n) playerCount) 100) percentage\<rfloor>"

definition wormHoleCount :: "nat \<Rightarrow> rat \<Rightarrow> rat \<Rightarrow> int" where
  "wormHoleCount n playerCount percentage =
     \<lfloor>js_mul (js_div (js_div (js_sub (of_nat n) playerCount) 2) 100) percentage\<rfloor>"

text \<open>The filter of a pass whose own flag is \<open>flag\<close>, and the stars the pass picks.\<close>

definition eligible :: "('r, 'q) MapService \<Rightarrow> (Star \<Rightarrow> bool) \<Rightarrow> Star \<Rightarrow> bool" where
  "eligible sv flag s = (\<not> homeStar s \<and> \<not> flag s \<and> \<not> isDeadStar sv s)"

definition paired :: "Star \<Rightarrow> bool" where
  "paired s = (wormHoleToStarId s \<noteq> None)"

definition winners ::
  "('r, 'q) MapService \<Rightarrow> 'r \<Rightarrow> (Star \<Rightarrow> bool) \<Rightarrow> int \<Rightarrow> Star list \<Rightarrow> nat list" where
  "winners sv rand flag n ss =
     slice0 n (fst (shuffle sv rand (applicableStars (eligible sv flag) ss)))"

text \<open>The stars (by position) that do not carry \<open>flag\<close> in \<open>ss\<close> and carry it in \<open>ss'\<close>.\<close>

definition newlyMarked :: "(Star \<Rightarrow> bool) \<Rightarrow> Star list \<Rightarrow> Star list \<Rightarrow> nat list" where
  "newlyMarked flag ss ss' =
     filter (\<lambda>i. \<not> flag (ss ! i) \<and> flag (ss' ! i)) [0..<length ss]"

text \<open>Wormholes are mutual, and no star leads to itself.\<close>

definition wormHolesMutual :: "Star list \<Rightarrow> bool" where
  "wormHolesMutual ss =
     (\<forall>a \<in> set ss. \<forall>b \<in> set ss.
        wormHoleToStarId a = Some (star_id b) \<longrightarrow>
        wormHoleToStarId b = Some (star_id a) \<and> star_id a \<noteq> star_id b)"

section \<open>Worked examples\<close>

text \<open>
  Stand-ins for the collaborators, for the worked examples: a shuffle that reverses the
  array and counts its calls, no dead star, a random service that replays a list of
  values, a pool of three names, star factories that number a star by the \<open>x\<close> of its
  location and take \<^verbatim>\<open>homeStar\<close> from it, and strategies that return the given
  locations.
\<close>

definition plainStar :: "nat \<Rightarrow> bool \<Rightarrow> Star" where
  "plainStar i home =
     \<lparr>star_id = i, name = None,
      naturalResources = \<lparr>economy = 10, industry = 23, science = 50\<rparr>,
      homeStar = home, warpGate = False, wormHoleToStarId = None, isNebula = False,
      isAsteroidField = False, isBinaryStar = False, isBlackHole = False, isPulsar = False\<rparr>"

definition exampleService :: "bool \<Rightarrow> Location list \<Rightarrow> (nat, rat list) MapService" where
  "exampleService split locations =
     \<lparr>shuffle = (\<lambda>rand xs. (rev xs, Suc rand)),
      isDeadStar = (\<lambda>s. False),
      isSplitResources = (\<lambda>game. split),
      getRandomNumberBetween = (\<lambda>q lo hi. case q of [] \<Rightarrow> (lo, []) | v # q' \<Rightarrow> (v, q')),
      getRandomStarNames = (\<lambda>n. take n [''Sol'', ''Vega'', ''Rigel'']),
      generateUnownedStar =
        (\<lambda>starName l resources. (plainStar (nat \<lfloor>loc_x l\<rfloor>) (loc_homeStar l))\<lparr>name := starName\<rparr>),
      generateCustomGalaxyStar =
        (\<lambda>starName l. (plainStar (nat \<lfloor>loc_x l\<rfloor>) (loc_homeStar l))\<lparr>name := starName\<rparr>),
      circular_generateLocations = (\<lambda>game n distribution. locations),
      spiral_generateLocations = (\<lambda>game n distribution. locations),
      doughnut_generateLocations = (\<lambda>game n distribution. locations),
      circularBalanced_generateLocations = (\<lambda>game n distribution players. locations),
      irregular_generateLocations = (\<lambda>rand game n distribution players seed. (locations, rand)),
      custom_generateLocations = (\<lambda>json players. locations)\<rparr>"

definition exampleGame :: Game where
  "exampleGame =
     \<lparr>galaxyType = ''circular'', resourceDistribution = ''random'', general_playerLimit = 1,
      randomWarpGates = 0, randomWormHoles = 0, randomNebulas = 0, randomAsteroidFields = 0,
      randomBinaryStars = 0, randomBlackHoles = 0, randomPulsars = 0,
      maxNaturalResources = 50, galaxy_stars = []\<rparr>"

definition exampleLocations :: "Location list" where
  "exampleLocations =
     [Location 0 0 False False None None, Location 1 0 False False None None,
      Location 2 0 False False None None, Location 3 0 False False None None]"

definition exampleStars :: "Star list" where
  "exampleStars = [plainStar 0 True, plainStar 1 False, plainStar 2 False]"

text \<open>
  What a loop over the references \<open>W\<close> does to the array: same length, a star outside \<open>W\<close>
  is as it was, and a star of \<open>W\<close> is related to what it was by \<open>rel\<close>.
\<close>

definition touches ::
  "nat list \<Rightarrow> (Star \<Rightarrow> Star \<Rightarrow> bool) \<Rightarrow> Star list \<Rightarrow> Star list \<Rightarrow> bool" where
  "touches W rel ss ss' =
     (length ss' = length ss \<and>
      (\<forall>i < length ss. if i \<in> set W then rel (ss ! i) (ss' ! i) else ss' ! i = ss ! i))"

text \<open>
  The references the pairing loop writes to when it runs the values \<open>is\<close> of \<open>i\<close>, and what
  the loop has done when it returns: each member of a pair leads to the other member.
\<close>

definition pairRefs :: "nat list \<Rightarrow> nat list \<Rightarrow> nat list" where
  "pairRefs ws is = concat (map (\<lambda>i. [ws ! (i * 2), ws ! (i * 2 + 1)]) is)"

definition linked :: "nat list \<Rightarrow> nat list \<Rightarrow> Star list \<Rightarrow> Star list \<Rightarrow> bool" where
  "linked ws is ss ss' =
     (length ss' = length ss \<and>
      (\<forall>x < length ss. x \<notin> set (pairRefs ws is) \<longrightarrow> ss' ! x = ss ! x) \<and>
      (\<forall>i \<in> set is.
         ss' ! (ws ! (i * 2)) =
           (ss ! (ws ! (i * 2)))\<lparr>wormHoleToStarId := Some (star_id (ss ! (ws ! (i * 2 + 1))))\<rparr> \<and>
         ss' ! (ws ! (i * 2 + 1)) =
           (ss ! (ws ! (i * 2 + 1)))\<lparr>wormHoleToStarId := Some (star_id (ss ! (ws ! (i * 2))))\<rparr>))"

text \<open>The home stars of \<open>ss0\<close> are in \<open>ss\<close> as they are in \<open>ss0\<close>.\<close>

definition homeKept :: "Star list \<Rightarrow> Star list \<Rightarrow> bool" where
  "homeKept ss0 ss =
     (length ss = length ss0 \<and> (\<forall>i < length ss0. homeStar (ss0 ! i) \<longrightarrow> ss ! i = ss0 ! i))"

text \<open>
  Example galaxies: \<open>n\<close> stars of which the first \<open>h\<close> are home stars; four stars of which
  two are already a wormhole pair; and a starting cluster, a home location with two
  linked locations, with the stars the example factory makes of it.
\<close>

definition exampleGalaxy :: "nat \<Rightarrow> nat \<Rightarrow> Star list" where
  "exampleGalaxy n h = map (\<lambda>i. plainStar i (i < h)) [0..<n]"

definition pairedGalaxy :: "Star list" where
  "pairedGalaxy =
     [plainStar 0 True, (plainStar 1 False)\<lparr>wormHoleToStarId := Some 2\<rparr>,
      (plainStar 2 False)\<lparr>wormHoleToStarId := Some 1\<rparr>, plainStar 3 False]"

definition clusterLocations :: "Location list" where
  "clusterLocations =
     [Location 0 0 True False
        (Some [Location 1 0 False True None None, Location 2 0 False True None None]) None,
      Location 1 0 False True None None, Location 2 0 False True None None]"

definition clusterStars :: "Star list" where
  "clusterStars =
     [(plainStar 0 True)\<lparr>name := Some ''Sol''\<rparr>, (plainStar 1 False)\<lparr>name := Some ''Vega''\<rparr>,
      (plainStar 2 False)\<lparr>name := Some ''Rigel''\<rparr>]"

section \<open>Rounding to a double\<close>

lemma roundTiesToEven_le: "m < of_int M + 1 / 2 \<Longrightarrow> roundTiesToEven m \<le> M"
  unfolding roundTiesToEven_def Let_def
  by (auto simp: not_less) linarith+

lemma roundTiesToEven_ge: "of_int M - 1 / 2 < m \<Longrightarrow> M \<le> roundTiesToEven m"
  unfolding roundTiesToEven_def Let_def
  by (auto simp: not_less) linarith+

lemma roundTiesToEven_nonneg: "0 \<le> m \<Longrightarrow> 0 \<le> roundTiesToEven m"
  using roundTiesToEven_ge [of 0 m] by simp

lemma roundTiesToEven_err: "\<bar>of_int (roundTiesToEven m) - m\<bar> \<le> 1 / 2"
proof -
  have "of_int \<lfloor>m\<rfloor> \<le> m" "m < of_int \<lfloor>m\<rfloor> + 1" by linarith+
  then show ?thesis
    unfolding roundTiesToEven_def Let_def by (auto simp: not_less)
qed

lemma binade_bounds:
  assumes "0 < q"
  shows "2 powi (binade q) \<le> q \<and> q < 2 powi (binade q + 1)"
proof -
  obtain a b where ab: "quotient_of q = (a, b)" by (cases "quotient_of q")
  then have b: "0 < b" and q: "q = of_int a / of_int b"
    by (simp_all add: quotient_of_denom_pos quotient_of_div)
  with assms have a: "0 < a"
    by (simp add: zero_less_divide_iff)
  define la lb where "la = bitlen a" and "lb = bitlen b"
  have la: "1 \<le> la" and lb: "1 \<le> lb"
    using a b by (simp_all add: la_def lb_def bitlen_alt_def)
  have ba: "2 ^ nat (la - 1) \<le> a" "a < 2 ^ nat la" and bb: "2 ^ nat (lb - 1) \<le> b" "b < 2 ^ nat lb"
    using bitlen_bounds [OF a] bitlen_bounds [OF b] by (simp_all add: la_def lb_def)
  have pw: "\<And>n. 0 \<le> n \<Longrightarrow> (2::rat) powi n = of_int (2 ^ nat n)"
    by (simp add: power_int_def)
  have ra: "(2::rat) powi (la - 1) \<le> of_int a" "of_int a < (2::rat) powi la"
    using ba la by (simp_all only: pw of_int_le_iff of_int_less_iff)
  have rb: "(2::rat) powi (lb - 1) \<le> of_int b" "of_int b < (2::rat) powi lb"
    using bb lb by (simp_all only: pw of_int_le_iff of_int_less_iff)
  have pos: "\<And>n. (0::rat) < 2 powi n"
    by (simp add: zero_less_power_int)
  have "q < 2 powi la / of_int b"
    using ra(2) b by (simp add: q divide_strict_right_mono)
  also have "\<dots> \<le> 2 powi la / 2 powi (lb - 1)"
    using rb(1) pos [of "lb - 1"] pos [of la] b by (intro divide_left_mono) simp_all
  also have "\<dots> = 2 powi (la - (lb - 1))"
    by (simp add: power_int_diff)
  finally have up: "q < 2 powi (la - lb + 1)"
    by (simp add: algebra_simps)
  have "2 powi (la - 1 - lb) = 2 powi (la - 1) / (2::rat) powi lb"
    by (simp add: power_int_diff)
  also have "\<dots> < 2 powi (la - 1) / of_int b"
    using rb(2) b pos [of "la - 1"] by (intro divide_strict_left_mono) simp_all
  also have "\<dots> \<le> q"
    using ra(1) b by (simp add: q divide_right_mono)
  finally have lo: "2 powi (la - lb - 1) < q"
    by (simp add: algebra_simps)
  show ?thesis
    using up lo ab unfolding binade_def la_def lb_def
    by (auto simp: Let_def not_le)
qed

lemma toDouble_pos:
  "0 < q \<Longrightarrow> toDouble q =
     of_int (roundTiesToEven (q / 2 powi (binade q - 52))) * 2 powi (binade q - 52)"
  by (simp add: toDouble_def Let_def)

lemma toDouble_nonneg: "0 \<le> q \<Longrightarrow> 0 \<le> toDouble q"
proof (cases "q = 0")
  case True
  then show ?thesis by (simp add: toDouble_def)
next
  case False
  assume "0 \<le> q"
  with False have q: "0 < q" by simp
  have "0 \<le> q / 2 powi (binade q - 52)" using q by simp
  then have "0 \<le> roundTiesToEven (q / 2 powi (binade q - 52))"
    by (rule roundTiesToEven_nonneg)
  then show ?thesis
    by (simp add: toDouble_pos [OF q])
qed

lemma toDouble_zero: "toDouble 0 = 0"
  by (simp add: toDouble_def)

lemma toDouble_fifth: "toDouble (1 / 5) = 3602879701896397 / 18014398509481984"
  by code_simp

lemma blackHole_ceiling:
  assumes x0: "0 \<le> x" and x53: "x < 2 ^ 53"
  shows "\<lceil>toDouble (of_int x * toDouble (1 / 5))\<rceil> = \<lceil>(of_int x :: rat) / 5\<rceil>"
proof (cases "x = 0")
  case True
  then show ?thesis by (simp add: toDouble_zero)
next
  case False
  with x0 have x1: "1 \<le> x" by simp
  define q :: rat where "q = of_int x * (3602879701896397 / 18014398509481984)"
  define k where "k = \<lceil>(of_int x :: rat) / 5\<rceil>"
  define e where "e = binade q"
  define D :: int where "D = 2 ^ nat (52 - e)"
  have "x < 9007199254740992" using x53 by simp
  then have "(of_int x :: rat) < of_int 9007199254740992" by (simp only: of_int_less_iff)
  then have xr2: "(of_int x :: rat) < 9007199254740992" by simp
  have "(of_int 1 :: rat) \<le> of_int x" using x1 by (simp only: of_int_le_iff)
  then have xr1: "(1::rat) \<le> of_int x" by simp
  have qpos: "0 < q" using xr1 by (simp add: q_def)
  have bnd: "2 powi e \<le> q" "q < 2 powi (e + 1)"
    using binade_bounds [OF qpos] by (simp_all add: e_def)
  have "q < 2251799813685248"
    using xr2 unfolding q_def by linarith
  also have "(2251799813685248::rat) = 2 powi 51" by simp
  finally have "q < 2 powi 51" .
  with bnd(1) have "(2::rat) powi e < 2 powi 51" by (rule le_less_trans)
  then have e50: "e \<le> 50"
    using power_int_le_imp_less_exp [of "2::rat" e 51] by linarith
  have u: "(2::rat) powi (e - 52) = 1 / of_int D"
    using e50 by (simp add: power_int_def D_def field_simps)
  have Dp: "(2::rat) powi (52 - e) = of_int D"
    using e50 by (simp add: power_int_def D_def)
  have "(2::int) ^ 2 \<le> 2 ^ nat (52 - e)"
    using e50 by (intro power_increasing) auto
  then have D4: "4 \<le> D" by (simp add: D_def)
  then have "(of_int 4 :: rat) \<le> of_int D" by (simp only: of_int_le_iff)
  then have Dr: "(4::rat) \<le> of_int D" by simp
  have td: "toDouble q = of_int (roundTiesToEven (q * of_int D)) / of_int D"
    using toDouble_pos [OF qpos] u by (simp add: e_def)
  have "q * of_int D < 2 powi (e + 1) * 2 powi (52 - e)"
    using bnd(2) Dr unfolding Dp by (intro mult_strict_right_mono) simp_all
  also have "\<dots> = 2 powi ((e + 1) + (52 - e))"
    by (rule power_int_add [symmetric]) simp
  also have "(e + 1) + (52 - e) = 53" by simp
  finally have qD: "q * of_int D < 9007199254740992" by simp
  define r :: rat where "r = of_int x / 5"
  have qr: "q = r + r / 18014398509481984"
    by (simp add: q_def r_def)
  have r0: "0 \<le> r" using xr1 by (simp add: r_def)
  have rk: "r \<le> of_int k"
    by (simp add: r_def k_def)
  have "of_int k - 1 < r"
    unfolding r_def k_def by linarith
  then have "rat_of_int (5 * k - 5) < of_int x"
    by (simp add: r_def)
  then have "5 * k - 5 < x"
    by (simp only: of_int_less_iff)
  then have "5 * k - 4 \<le> x" by simp
  then have "rat_of_int (5 * k - 4) \<le> of_int x"
    by (simp only: of_int_le_iff)
  then have kr: "of_int k - 4 / 5 \<le> r"
    by (simp add: r_def)
  have rD: "r * of_int D \<le> q * of_int D"
    using r0 Dr by (intro mult_right_mono) (simp_all add: qr)
  have "q * of_int D = r * of_int D + r * of_int D / 18014398509481984"
    by (simp add: qr algebra_simps)
  also have "\<dots> < r * of_int D + 1 / 2"
    using rD qD by simp
  also have "\<dots> \<le> of_int k * of_int D + 1 / 2"
    using rk Dr by (simp add: mult_right_mono)
  finally have "q * of_int D < of_int (k * D) + 1 / 2" by simp
  then have up: "roundTiesToEven (q * of_int D) \<le> k * D"
    by (rule roundTiesToEven_le)
  have "of_int ((k - 1) * D + 1) - 1 / 2 = (of_int k - 1) * rat_of_int D + 1 / 2"
    by simp
  also have "\<dots> < (of_int k - 1) * of_int D + of_int D / 5"
    using Dr by simp
  also have "\<dots> = (of_int k - 4 / 5) * of_int D"
    by (simp add: algebra_simps)
  also have "\<dots> \<le> r * of_int D"
    using kr Dr by (intro mult_right_mono) simp_all
  also note rD
  finally have lo: "(k - 1) * D + 1 \<le> roundTiesToEven (q * of_int D)"
    by (rule roundTiesToEven_ge)
  have Dpos: "(0::rat) < of_int D" using Dr by simp
  have "rat_of_int (roundTiesToEven (q * of_int D)) \<le> of_int (k * D)"
    using up by (simp only: of_int_le_iff)
  then have "toDouble q \<le> of_int k"
    using Dpos by (simp add: td pos_divide_le_eq)
  moreover have "rat_of_int ((k - 1) * D + 1) \<le> of_int (roundTiesToEven (q * of_int D))"
    using lo by (simp only: of_int_le_iff)
  then have "(of_int k - 1) * rat_of_int D < of_int (roundTiesToEven (q * of_int D))"
    by simp
  then have "of_int k - 1 < toDouble q"
    unfolding td using Dpos by (simp only: pos_less_divide_eq)
  ultimately have "\<lceil>toDouble q\<rceil> = k"
    by (intro ceiling_unique) simp_all
  then show ?thesis
    by (simp add: toDouble_fifth q_def k_def)
qed

lemma blackHoleResource_below:
  assumes "0 \<le> x" "x < 2 ^ 53"
  shows "\<lceil>js_mul (of_int x) (toDouble (1 / 5))\<rceil> = \<lceil>(of_int x :: rat) / 5\<rceil>"
    and "\<lceil>js_mul (of_int x) (toDouble (1 / 5))\<rceil> \<le> x"
proof -
  show eq: "\<lceil>js_mul (of_int x) (toDouble (1 / 5))\<rceil> = \<lceil>(of_int x :: rat) / 5\<rceil>"
    unfolding js_mul_def by (rule blackHole_ceiling [OF assms])
  have "(of_int x :: rat) / 5 \<le> of_int x"
    using assms(1) by simp
  then have "\<lceil>(of_int x :: rat) / 5\<rceil> \<le> x"
    by (simp add: ceiling_le_iff)
  with eq show "\<lceil>js_mul (of_int x) (toDouble (1 / 5))\<rceil> \<le> x" by simp
qed

lemma toDouble_rel:
  assumes "0 \<le> q"
  shows "\<bar>toDouble q - q\<bar> \<le> q / 2 ^ 53"
proof (cases "q = 0")
  case True
  then show ?thesis by (simp add: toDouble_zero)
next
  case False
  with assms have q: "0 < q" by simp
  define u :: rat where "u = 2 powi (binade q - 52)"
  have u: "0 < u" by (simp add: u_def)
  have "u = 2 powi (binade q) / 2 powi 52"
    unfolding u_def by (simp add: power_int_diff)
  also have "\<dots> \<le> q / 2 powi 52"
    using binade_bounds [OF q] by (intro divide_right_mono) simp_all
  finally have uq: "u \<le> q / 2 ^ 52" by simp
  have "toDouble q - q = (of_int (roundTiesToEven (q / u)) - q / u) * u"
    using u by (simp add: toDouble_pos [OF q] u_def [symmetric] algebra_simps)
  then have "\<bar>toDouble q - q\<bar> = \<bar>of_int (roundTiesToEven (q / u)) - q / u\<bar> * u"
    using u by (simp add: abs_mult)
  also have "\<dots> \<le> 1 / 2 * u"
    using roundTiesToEven_err [of "q / u"] u by (intro mult_right_mono) simp_all
  also have "\<dots> \<le> 1 / 2 * (q / 2 ^ 52)"
    using uq by simp
  finally show ?thesis by simp
qed

lemma toDouble_between:
  assumes "0 \<le> q"
  shows "q * (1 - 1 / 2 ^ 53) \<le> toDouble q" "toDouble q \<le> q * (1 + 1 / 2 ^ 53)"
proof -
  have "q / 2 ^ 53 = q * (1 / 2 ^ 53)" by simp
  with toDouble_rel [OF assms] have "\<bar>toDouble q - q\<bar> \<le> q * (1 / 2 ^ 53)" by simp
  then have "toDouble q - q \<le> q * (1 / 2 ^ 53)" "- (q * (1 / 2 ^ 53)) \<le> toDouble q - q"
    by linarith+
  then show "q * (1 - 1 / 2 ^ 53) \<le> toDouble q" "toDouble q \<le> q * (1 + 1 / 2 ^ 53)"
    by (simp_all only: right_diff_distrib distrib_left mult_1_right)
qed

lemma blackHoleResource_le:
  assumes "0 \<le> x"
  shows "\<lceil>js_mul (of_int x) (toDouble (1 / 5))\<rceil> \<le> x"
proof -
  define q :: rat where "q = of_int x * (3602879701896397 / 18014398509481984)"
  have q: "0 \<le> q" using assms by (simp add: q_def)
  have "toDouble q \<le> q * (1 + 1 / 2 ^ 53)"
    by (rule toDouble_between(2) [OF q])
  also have "\<dots> \<le> of_int x"
    using assms by (simp add: q_def)
  finally have "\<lceil>toDouble q\<rceil> \<le> x"
    by (simp add: ceiling_le_iff)
  then show ?thesis
    by (simp add: js_mul_def toDouble_fifth q_def)
qed

lemma wormHoleCount_near:
  fixes n k p :: nat
  assumes kn: "k \<le> n" and small: "(n - k) * p < 2 ^ 40"
  shows "wormHoleCount n (of_nat k) (of_nat p) = int ((n - k) * p div 200)
       \<or> (200 dvd (n - k) * p
          \<and> wormHoleCount n (of_nat k) (of_nat p) = int ((n - k) * p div 200) - 1)"
proof -
  define N where "N = n - k"
  define M where "M = N * p"
  define e :: rat where "e = 1 / 2 ^ 53"
  define E :: rat where "E = of_nat M / 200"
  define x1 where "x1 = toDouble (of_nat n - of_nat k)"
  define xh where "xh = toDouble (x1 / 2)"
  define x2 where "x2 = toDouble (xh / 100)"
  define x3 where "x3 = toDouble (x2 * of_nat p)"
  have fc: "wormHoleCount n (of_nat k) (of_nat p) = \<lfloor>x3\<rfloor>"
    by (simp add: wormHoleCount_def js_sub_def js_div_def js_mul_def x1_def xh_def x2_def x3_def)
  have nk: "(of_nat n :: rat) - of_nat k = of_nat N"
    using kn by (simp add: N_def of_nat_diff)
  have e: "0 < e" "e < 1" by (simp_all add: e_def)
  have b1: "of_nat N * (1 - e) \<le> x1" "x1 \<le> of_nat N * (1 + e)"
    unfolding x1_def nk e_def by (rule toDouble_between; simp)+
  have x1: "0 \<le> x1" unfolding x1_def nk by (rule toDouble_nonneg) simp
  have bh: "x1 / 2 * (1 - e) \<le> xh" "xh \<le> x1 / 2 * (1 + e)"
    unfolding xh_def e_def using x1 by (rule toDouble_between [OF divide_nonneg_pos]; simp)+
  have xh: "0 \<le> xh" unfolding xh_def using x1 by (intro toDouble_nonneg) simp
  have b2: "xh / 100 * (1 - e) \<le> x2" "x2 \<le> xh / 100 * (1 + e)"
    unfolding x2_def e_def using xh by (rule toDouble_between [OF divide_nonneg_pos]; simp)+
  have x2: "0 \<le> x2" unfolding x2_def using xh by (intro toDouble_nonneg) simp
  have b3: "x2 * of_nat p * (1 - e) \<le> x3" "x3 \<le> x2 * of_nat p * (1 + e)"
    unfolding x3_def e_def using x2 by (rule toDouble_between [OF mult_nonneg_nonneg]; simp)+
  have up: "x3 \<le> E * ((1 + e) * (1 + e) * (1 + e) * (1 + e))"
  proof -
    note b3(2)
    also have "x2 * of_nat p * (1 + e) \<le> (xh / 100 * (1 + e)) * of_nat p * (1 + e)"
      using b2(2) e by (intro mult_right_mono) simp_all
    also have "\<dots> \<le> (x1 / 2 * (1 + e) / 100 * (1 + e)) * of_nat p * (1 + e)"
      using bh(2) e by (intro mult_right_mono divide_right_mono) simp_all
    also have "\<dots> \<le> (of_nat N * (1 + e) / 2 * (1 + e) / 100 * (1 + e)) * of_nat p * (1 + e)"
      using b1(2) e by (intro mult_right_mono divide_right_mono) simp_all
    also have "\<dots> = E * ((1 + e) * (1 + e) * (1 + e) * (1 + e))"
      by (simp add: E_def M_def)
    finally show ?thesis .
  qed
  have lo: "E * ((1 - e) * (1 - e) * (1 - e) * (1 - e)) \<le> x3"
  proof -
    have "E * ((1 - e) * (1 - e) * (1 - e) * (1 - e))
        = (of_nat N * (1 - e) / 2 * (1 - e) / 100 * (1 - e)) * of_nat p * (1 - e)"
      by (simp add: E_def M_def)
    also have "\<dots> \<le> (x1 / 2 * (1 - e) / 100 * (1 - e)) * of_nat p * (1 - e)"
      using b1(1) e by (intro mult_right_mono divide_right_mono) simp_all
    also have "\<dots> \<le> (xh / 100 * (1 - e)) * of_nat p * (1 - e)"
      using bh(1) e by (intro mult_right_mono divide_right_mono) simp_all
    also have "\<dots> \<le> x2 * of_nat p * (1 - e)"
      using b2(1) e by (intro mult_right_mono) simp_all
    also note b3(1)
    finally show ?thesis .
  qed
  have c1: "(1 + e) * (1 + e) * (1 + e) * (1 + e) \<le> 1 + 5 * e"
    by (simp add: e_def)
  have c2: "1 - 5 * e \<le> (1 - e) * (1 - e) * (1 - e) * (1 - e)"
    by (simp add: e_def)
  have E0: "0 \<le> E" by (simp add: E_def)
  have "M < 2 ^ 40" using small by (simp add: M_def N_def)
  then have "(of_nat M :: rat) < of_nat (2 ^ 40)" by (simp only: of_nat_less_iff)
  then have Eb: "E < 1099511627776 / 200" by (simp add: E_def)
  have d: "E * (5 * e) < 1 / 400"
    using Eb by (simp add: e_def)
  have "x3 \<le> E * (1 + 5 * e)"
    using up mult_left_mono [OF c1 E0] by linarith
  then have hi: "x3 < E + 1 / 400"
    using d by (simp add: algebra_simps)
  have "E * (1 - 5 * e) \<le> x3"
    using lo mult_left_mono [OF c2 E0] by linarith
  then have low: "E - 1 / 400 < x3"
    using d by (simp add: algebra_simps)
  define q r where "q = M div 200" and "r = M mod 200"
  have "M = q * 200 + r" by (simp add: q_def r_def)
  then have "(of_nat M :: rat) = of_nat (q * 200 + r)" by simp
  then have Eq: "E = of_nat q + of_nat r / 200"
    by (simp add: E_def)
  have r: "r < 200" by (simp add: r_def)
  show ?thesis
  proof (cases "r = 0")
    case True
    then have dv: "200 dvd (n - k) * p"
      by (simp add: r_def M_def N_def dvd_eq_mod_eq_0)
    from True Eq have EE: "E = of_nat q" by simp
    show ?thesis
    proof (cases "of_nat q \<le> x3")
      case True
      with hi EE have "\<lfloor>x3\<rfloor> = int q"
        by (intro floor_unique) simp_all
      then show ?thesis by (simp add: fc q_def M_def N_def)
    next
      case False
      with low EE have "\<lfloor>x3\<rfloor> = int q - 1"
        by (intro floor_unique) simp_all
      with dv show ?thesis by (simp add: fc q_def M_def N_def)
    qed
  next
    case False
    then have "1 \<le> r" "r \<le> 199" using r by simp_all
    then have "(of_nat 1 :: rat) \<le> of_nat r" "(of_nat r :: rat) \<le> of_nat 199"
      by (simp_all only: of_nat_le_iff)
    then have rr: "(1 :: rat) \<le> of_nat r" "(of_nat r :: rat) \<le> 199" by simp_all
    have "\<lfloor>x3\<rfloor> = int q"
      using low hi rr unfolding Eq by (intro floor_unique) simp_all
    then show ?thesis by (simp add: fc q_def M_def N_def)
  qed
qed

lemma wormHoleCount_scenario: "wormHoleCount 100 4 10 = 4"
  by code_simp

section \<open>Loops, filters and the shuffle\<close>

lemma permuting_mset: "permuting sh \<Longrightarrow> sh r xs = (ys, r') \<Longrightarrow> mset ys = mset xs"
  unfolding permuting_def by (metis fst_conv)

lemma permuting_set: "permuting sh \<Longrightarrow> sh r xs = (ys, r') \<Longrightarrow> set ys = set xs"
  by (metis permuting_mset set_mset_mset)

lemma permuting_length: "permuting sh \<Longrightarrow> sh r xs = (ys, r') \<Longrightarrow> length ys = length xs"
  by (metis permuting_mset size_mset)

lemma permuting_distinct: "permuting sh \<Longrightarrow> sh r xs = (ys, r') \<Longrightarrow> distinct ys = distinct xs"
  by (metis permuting_mset mset_eq_imp_distinct_iff)

lemma permuting_example: "permuting (shuffle (exampleService split locations))"
  by (simp add: permuting_def exampleService_def)

lemma distinct_applicableStars: "distinct (applicableStars p ss)"
  by (simp add: applicableStars_def)

lemma set_applicableStars: "set (applicableStars p ss) = {i. i < length ss \<and> p (ss ! i)}"
  by (auto simp: applicableStars_def)

lemma set_slice0: "set (slice0 n xs) \<subseteq> set xs"
  by (auto simp: slice0_def dest: in_set_takeD)

lemma distinct_slice0: "distinct xs \<Longrightarrow> distinct (slice0 n xs)"
  by (simp add: slice0_def)

lemma length_slice0: "0 \<le> n \<Longrightarrow> length (slice0 n xs) = min (nat n) (length xs)"
  by (simp add: slice0_def)

lemma length_markEach [simp]: "length (markEach f ws ss) = length ss"
  by (induction ws arbitrary: ss) auto

lemma markEach_untouched: "i \<notin> set ws \<Longrightarrow> markEach f ws ss ! i = ss ! i"
  by (induction ws arbitrary: ss) auto

lemma markEach_touched:
  "distinct ws \<Longrightarrow> i \<in> set ws \<Longrightarrow> i < length ss \<Longrightarrow> markEach f ws ss ! i = f (ss ! i)"
proof (induction ws arbitrary: ss)
  case Nil
  then show ?case by simp
next
  case (Cons w ws)
  show ?case
  proof (cases "i = w")
    case True
    with Cons.prems show ?thesis by (simp add: markEach_untouched)
  next
    case False
    with Cons.prems have "markEach f ws (ss[w := f (ss ! w)]) ! i = f ((ss[w := f (ss ! w)]) ! i)"
      by (intro Cons.IH) auto
    with False show ?thesis by simp
  qed
qed

lemma length_forEachStar [simp]: "length (fst (forEachStar body ws ss q)) = length ss"
  by (induction ws arbitrary: ss q) (auto split: prod.splits)

lemma forEachStar_untouched: "i \<notin> set ws \<Longrightarrow> fst (forEachStar body ws ss q) ! i = ss ! i"
  by (induction ws arbitrary: ss q) (auto split: prod.splits)

lemma forEachStar_touched:
  "distinct ws \<Longrightarrow> i \<in> set ws \<Longrightarrow> i < length ss \<Longrightarrow>
   \<exists>q0. fst (forEachStar body ws ss q) ! i = fst (body (ss ! i) q0)"
proof (induction ws arbitrary: ss q)
  case Nil
  then show ?case by simp
next
  case (Cons w ws)
  obtain s' q' where b: "body (ss ! w) q = (s', q')" by (cases "body (ss ! w) q")
  show ?case
  proof (cases "i = w")
    case True
    with Cons.prems b have "fst (forEachStar body (w # ws) ss q) ! i = s'"
      by (simp add: forEachStar_untouched)
    with b True show ?thesis by (metis fst_conv)
  next
    case False
    with Cons.prems have "\<exists>q0. fst (forEachStar body ws (ss[w := s']) q') ! i
        = fst (body ((ss[w := s']) ! i) q0)"
      by (intro Cons.IH) auto
    with False b show ?thesis by simp
  qed
qed

section \<open>What each pass touches\<close>

lemma touches_map:
  assumes "touches W rel ss ss'" and "\<And>s s'. rel s s' \<Longrightarrow> k s' = k s"
  shows "map k ss' = map k ss"
proof (rule nth_equalityI)
  show "length (map k ss') = length (map k ss)"
    using assms(1) by (simp add: touches_def)
next
  fix i assume "i < length (map k ss')"
  then have i: "i < length ss" "i < length ss'" using assms(1) by (simp_all add: touches_def)
  with assms have "k (ss' ! i) = k (ss ! i)"
    by (cases "i \<in> set W") (auto simp: touches_def)
  with i show "map k ss' ! i = map k ss ! i" by simp
qed

lemma markEach_touches:
  "distinct W \<Longrightarrow> touches W (\<lambda>s s'. s' = f s) ss (markEach f W ss)"
  by (simp add: touches_def markEach_untouched markEach_touched)

lemma forEachStar_touches:
  "distinct W \<Longrightarrow>
   touches W (\<lambda>s s'. \<exists>q0. s' = fst (body s q0)) ss (fst (forEachStar body W ss q))"
  by (simp add: touches_def forEachStar_untouched forEachStar_touched)

lemma winners_distinct: "permuting (shuffle sv) \<Longrightarrow> distinct (winners sv rand flag n ss)"
  unfolding winners_def
  by (metis distinct_slice0 distinct_applicableStars permuting_distinct prod.collapse)

lemma winners_subset:
  "permuting (shuffle sv) \<Longrightarrow> i \<in> set (winners sv rand flag n ss) \<Longrightarrow>
   i < length ss \<and> eligible sv flag (ss ! i)"
proof -
  assume p: "permuting (shuffle sv)" and i: "i \<in> set (winners sv rand flag n ss)"
  obtain ys r' where sh: "shuffle sv rand (applicableStars (eligible sv flag) ss) = (ys, r')"
    by (cases "shuffle sv rand (applicableStars (eligible sv flag) ss)")
  from i sh have "i \<in> set ys" using set_slice0 [of n ys] by (auto simp: winners_def)
  with permuting_set [OF p sh] show ?thesis by (simp add: set_applicableStars)
qed

lemma winners_not_home:
  "permuting (shuffle sv) \<Longrightarrow> i \<in> set (winners sv rand flag n ss) \<Longrightarrow> \<not> homeStar (ss ! i)"
  using winners_subset [of sv i rand flag n ss] by (simp add: eligible_def)

lemma length_winners:
  "permuting (shuffle sv) \<Longrightarrow> 0 \<le> n \<Longrightarrow>
   length (winners sv rand flag n ss) = min (nat n) (length (applicableStars (eligible sv flag) ss))"
proof -
  assume p: "permuting (shuffle sv)" and n: "0 \<le> n"
  obtain ys r' where sh: "shuffle sv rand (applicableStars (eligible sv flag) ss) = (ys, r')"
    by (cases "shuffle sv rand (applicableStars (eligible sv flag) ss)")
  with permuting_length [OF p sh] n show ?thesis
    by (simp add: winners_def length_slice0)
qed

lemma generateGates_touches:
  assumes "permuting (shuffle sv)"
  shows "touches (winners sv rand warpGate (featureCount (length ss) pc P) ss)
           (\<lambda>s s'. s' = s\<lparr>warpGate := True\<rparr>) ss (fst (generateGates sv rand ss pc P))"
proof -
  have "fst (generateGates sv rand ss pc P) =
      markEach (\<lambda>star. star\<lparr>warpGate := True\<rparr>)
        (winners sv rand warpGate (featureCount (length ss) pc P) ss) ss"
    by (simp add: generateGates_def winners_def featureCount_def eligible_def [abs_def] Let_def
        split: prod.splits)
  with markEach_touches [OF winners_distinct [OF assms]] show ?thesis by simp
qed

lemma generatePulsars_touches:
  assumes "permuting (shuffle sv)"
  shows "touches (winners sv rand isPulsar (featureCount (length ss) pc P) ss)
           (\<lambda>s s'. s' = s\<lparr>isPulsar := True\<rparr>) ss (fst (generatePulsars sv rand game ss pc P))"
proof -
  have "fst (generatePulsars sv rand game ss pc P) =
      markEach (\<lambda>star. star\<lparr>isPulsar := True\<rparr>)
        (winners sv rand isPulsar (featureCount (length ss) pc P) ss) ss"
    by (simp add: generatePulsars_def winners_def featureCount_def eligible_def [abs_def] Let_def
        split: prod.splits)
  with markEach_touches [OF winners_distinct [OF assms]] show ?thesis by simp
qed

lemma generateBlackHoles_touches:
  assumes "permuting (shuffle sv)"
  shows "touches (winners sv rand isBlackHole (featureCount (length ss) pc P) ss)
           (\<lambda>s s'. s' = blackHoleBody s) ss (fst (generateBlackHoles sv rand game ss pc P))"
proof -
  have "fst (generateBlackHoles sv rand game ss pc P) =
      markEach blackHoleBody (winners sv rand isBlackHole (featureCount (length ss) pc P) ss) ss"
    by (simp add: generateBlackHoles_def winners_def featureCount_def eligible_def [abs_def] Let_def
        split: prod.splits)
  with markEach_touches [OF winners_distinct [OF assms]] show ?thesis by simp
qed

lemma generateNebulas_touches:
  assumes "permuting (shuffle sv)"
  shows "touches (winners sv rand isNebula (featureCount (length ss) pc P) ss)
           (\<lambda>s s'. \<exists>q0. s' = fst (nebulaBody sv game s q0))
           ss (fst (generateNebulas sv rand q game ss pc P))"
proof -
  have "fst (generateNebulas sv rand q game ss pc P) =
      fst (forEachStar (nebulaBody sv game)
        (winners sv rand isNebula (featureCount (length ss) pc P) ss) ss q)"
    by (simp add: generateNebulas_def winners_def featureCount_def eligible_def [abs_def] Let_def
        split: prod.splits)
  with forEachStar_touches [OF winners_distinct [OF assms]] show ?thesis by simp
qed

lemma generateAsteroidFields_touches:
  assumes "permuting (shuffle sv)"
  shows "touches (winners sv rand isAsteroidField (featureCount (length ss) pc P) ss)
           (\<lambda>s s'. \<exists>q0. s' = fst (asteroidFieldBody sv game s q0))
           ss (fst (generateAsteroidFields sv rand q game ss pc P))"
proof -
  have "fst (generateAsteroidFields sv rand q game ss pc P) =
      fst (forEachStar (asteroidFieldBody sv game)
        (winners sv rand isAsteroidField (featureCount (length ss) pc P) ss) ss q)"
    by (simp add: generateAsteroidFields_def winners_def featureCount_def eligible_def [abs_def]
        Let_def split: prod.splits)
  with forEachStar_touches [OF winners_distinct [OF assms]] show ?thesis by simp
qed

lemma generateBinaryStars_touches:
  assumes "permuting (shuffle sv)"
  shows "touches (winners sv rand isBinaryStar (featureCount (length ss) pc P) ss)
           (\<lambda>s s'. \<exists>q0. s' = fst (binaryStarBody sv game
               (js_mul (maxNaturalResources game) (3 / 2))
               (js_mul (maxNaturalResources game) 3) s q0))
           ss (fst (generateBinaryStars sv rand q game ss pc P))"
proof -
  have "fst (generateBinaryStars sv rand q game ss pc P) =
      fst (forEachStar (binaryStarBody sv game
               (js_mul (maxNaturalResources game) (3 / 2))
               (js_mul (maxNaturalResources game) 3))
        (winners sv rand isBinaryStar (featureCount (length ss) pc P) ss) ss q)"
    by (simp add: generateBinaryStars_def winners_def featureCount_def eligible_def [abs_def]
        Let_def split: prod.splits)
  with forEachStar_touches [OF winners_distinct [OF assms]] show ?thesis by simp
qed

lemma nebulaBody_shape:
  "\<exists>nr. fst (nebulaBody sv game s q) = s\<lparr>isNebula := True, naturalResources := nr\<rparr>"
  by (cases s) (auto simp: nebulaBody_def Let_def split: prod.splits)

lemma asteroidFieldBody_shape:
  "\<exists>nr. fst (asteroidFieldBody sv game s q) = s\<lparr>isAsteroidField := True, naturalResources := nr\<rparr>"
  by (cases s) (auto simp: asteroidFieldBody_def Let_def split: prod.splits)

lemma binaryStarBody_shape:
  "\<exists>nr. fst (binaryStarBody sv game lo hi s q) = s\<lparr>isBinaryStar := True, naturalResources := nr\<rparr>"
  by (cases s) (auto simp: binaryStarBody_def Let_def split: prod.splits)

lemma blackHoleBody_shape:
  "\<exists>nr. blackHoleBody s = s\<lparr>isBlackHole := True, naturalResources := nr\<rparr>"
  by (cases s) (auto simp: blackHoleBody_def Let_def)

lemma nebulaBody_keeps:
  "star_id (fst (nebulaBody sv game s q)) = star_id s"
  "wormHoleToStarId (fst (nebulaBody sv game s q)) = wormHoleToStarId s"
  using nebulaBody_shape [of sv game s q] by auto

lemma asteroidFieldBody_keeps:
  "star_id (fst (asteroidFieldBody sv game s q)) = star_id s"
  "wormHoleToStarId (fst (asteroidFieldBody sv game s q)) = wormHoleToStarId s"
  using asteroidFieldBody_shape [of sv game s q] by auto

lemma binaryStarBody_keeps:
  "star_id (fst (binaryStarBody sv game lo hi s q)) = star_id s"
  "wormHoleToStarId (fst (binaryStarBody sv game lo hi s q)) = wormHoleToStarId s"
  using binaryStarBody_shape [of sv game lo hi s q] by auto

lemma blackHoleBody_keeps:
  "star_id (blackHoleBody s) = star_id s"
  "wormHoleToStarId (blackHoleBody s) = wormHoleToStarId s"
  using blackHoleBody_shape [of s] by auto

section \<open>The pairing loop\<close>

lemma wormHoleLoop_TypeError:
  "\<exists>i \<in> set is. length ws \<le> i * 2 + 1 \<Longrightarrow> wormHoleLoop ws is ss = Inl TypeError"
proof (induction "is" arbitrary: ss)
  case Nil
  then show ?case by simp
next
  case (Cons i "is")
  show ?case
  proof (cases "i * 2 + 1 < length ws")
    case True
    with Cons.prems have "\<exists>i \<in> set is. length ws \<le> i * 2 + 1" by auto
    from Cons.IH [OF this] True show ?thesis by (simp add: elemAt_def Let_def)
  next
    case False
    then show ?thesis by (simp add: elemAt_def)
  qed
qed

lemma wormHoleLoop_returns:
  "\<forall>i \<in> set is. i * 2 + 1 < length ws \<Longrightarrow> \<exists>ss'. wormHoleLoop ws is ss = Inr ss'"
  by (induction "is" arbitrary: ss) (auto simp: elemAt_def Let_def)

lemma pairRefs_in:
  "x \<in> set (pairRefs ws is) \<longleftrightarrow> (\<exists>i \<in> set is. x = ws ! (i * 2) \<or> x = ws ! (i * 2 + 1))"
  by (auto simp: pairRefs_def)

lemma wormHoleLoop_in_range:
  "wormHoleLoop ws is ss = Inr ss' \<Longrightarrow> i \<in> set is \<Longrightarrow> i * 2 + 1 < length ws"
proof (rule ccontr)
  assume a: "wormHoleLoop ws is ss = Inr ss'" "i \<in> set is" and "\<not> i * 2 + 1 < length ws"
  then have "\<exists>i \<in> set is. length ws \<le> i * 2 + 1" by (auto simp: not_less)
  from wormHoleLoop_TypeError [OF this, of ss] a show False by simp
qed

lemma wormHoleLoop_linked:
  assumes "distinct ws" "distinct is" "\<forall>x \<in> set ws. x < length ss"
    and "wormHoleLoop ws is ss = Inr ss'"
  shows "linked ws is ss ss'"
  using assms
proof (induction "is" arbitrary: ss)
  case Nil
  then show ?case by (simp add: linked_def pairRefs_def)
next
  case (Cons i "is")
  from Cons.prems(4) have r: "i * 2 + 1 < length ws"
    by (auto simp: elemAt_def split: if_splits)
  define a b where "a = ws ! (i * 2)" and "b = ws ! (i * 2 + 1)"
  define ss1 where "ss1 = ss[a := (ss ! a)\<lparr>wormHoleToStarId := Some (star_id (ss ! b))\<rparr>]"
  define ss2 where "ss2 = ss1[b := (ss1 ! b)\<lparr>wormHoleToStarId := Some (star_id (ss1 ! a))\<rparr>]"
  have ab: "a \<noteq> b"
    using r Cons.prems(1) by (simp add: a_def b_def nth_eq_iff_index_eq)
  have al: "a < length ss" and bl: "b < length ss"
    using r Cons.prems(3) by (simp_all add: a_def b_def)
  have loop: "wormHoleLoop ws is ss2 = Inr ss'"
    using Cons.prems(4) r by (simp add: elemAt_def Let_def a_def b_def ss1_def ss2_def)
  have ih: "linked ws is ss2 ss'"
    using Cons.prems loop by (intro Cons.IH) (simp_all add: ss2_def ss1_def)
  have rng: "\<And>j. j \<in> set is \<Longrightarrow> j * 2 + 1 < length ws"
    using wormHoleLoop_in_range [OF loop] by simp
  have ne: "\<And>j. j \<in> set is \<Longrightarrow>
      ws ! (j * 2) \<noteq> a \<and> ws ! (j * 2) \<noteq> b \<and> ws ! (j * 2 + 1) \<noteq> a \<and> ws ! (j * 2 + 1) \<noteq> b"
  proof -
    fix j assume j: "j \<in> set is"
    with Cons.prems(2) have "j \<noteq> i" by auto
    then show "ws ! (j * 2) \<noteq> a \<and> ws ! (j * 2) \<noteq> b \<and> ws ! (j * 2 + 1) \<noteq> a \<and> ws ! (j * 2 + 1) \<noteq> b"
      using rng [OF j] r Cons.prems(1) unfolding a_def b_def
      by (simp add: nth_eq_iff_index_eq)
  qed
  have fresh: "a \<notin> set (pairRefs ws is)" "b \<notin> set (pairRefs ws is)"
    using ne by (auto simp: pairRefs_in)
  have other: "\<And>x. x \<noteq> a \<Longrightarrow> x \<noteq> b \<Longrightarrow> ss2 ! x = ss ! x"
    by (simp add: ss2_def ss1_def)
  have s2a: "ss2 ! a = (ss ! a)\<lparr>wormHoleToStarId := Some (star_id (ss ! b))\<rparr>"
    using ab al by (simp add: ss2_def ss1_def)
  have s2b: "ss2 ! b = (ss ! b)\<lparr>wormHoleToStarId := Some (star_id (ss ! a))\<rparr>"
    using ab al bl by (simp add: ss2_def ss1_def)
  have len: "length ss2 = length ss" by (simp add: ss2_def ss1_def)
  from ih have l1: "length ss' = length ss2"
    and l2: "\<And>x. x < length ss2 \<Longrightarrow> x \<notin> set (pairRefs ws is) \<Longrightarrow> ss' ! x = ss2 ! x"
    and l3: "\<And>j. j \<in> set is \<Longrightarrow>
         ss' ! (ws ! (j * 2)) =
           (ss2 ! (ws ! (j * 2)))\<lparr>wormHoleToStarId := Some (star_id (ss2 ! (ws ! (j * 2 + 1))))\<rparr> \<and>
         ss' ! (ws ! (j * 2 + 1)) =
           (ss2 ! (ws ! (j * 2 + 1)))\<lparr>wormHoleToStarId := Some (star_id (ss2 ! (ws ! (j * 2))))\<rparr>"
    by (simp_all add: linked_def)
  have p1: "length ss' = length ss" using l1 len by simp
  have p2: "\<forall>x < length ss. x \<notin> set (pairRefs ws (i # is)) \<longrightarrow> ss' ! x = ss ! x"
  proof (intro allI impI)
    fix x assume x: "x < length ss" "x \<notin> set (pairRefs ws (i # is))"
    then have "x \<noteq> a" "x \<noteq> b" "x \<notin> set (pairRefs ws is)"
      by (auto simp: pairRefs_in a_def b_def)
    with l2 [of x] other [of x] x len show "ss' ! x = ss ! x" by simp
  qed
  have p3: "\<forall>j \<in> set (i # is).
         ss' ! (ws ! (j * 2)) =
           (ss ! (ws ! (j * 2)))\<lparr>wormHoleToStarId := Some (star_id (ss ! (ws ! (j * 2 + 1))))\<rparr> \<and>
         ss' ! (ws ! (j * 2 + 1)) =
           (ss ! (ws ! (j * 2 + 1)))\<lparr>wormHoleToStarId := Some (star_id (ss ! (ws ! (j * 2))))\<rparr>"
  proof
    fix j assume "j \<in> set (i # is)"
    then consider "j = i" | "j \<in> set is" by auto
    then show "ss' ! (ws ! (j * 2)) =
           (ss ! (ws ! (j * 2)))\<lparr>wormHoleToStarId := Some (star_id (ss ! (ws ! (j * 2 + 1))))\<rparr> \<and>
         ss' ! (ws ! (j * 2 + 1)) =
           (ss ! (ws ! (j * 2 + 1)))\<lparr>wormHoleToStarId := Some (star_id (ss ! (ws ! (j * 2))))\<rparr>"
    proof cases
      case 1
      have "ss' ! a = ss2 ! a" "ss' ! b = ss2 ! b"
        using l2 fresh al bl len by simp_all
      with s2a s2b 1 show ?thesis by (simp add: a_def b_def)
    next
      case 2
      from ne [OF 2] other have
        "ss2 ! (ws ! (j * 2)) = ss ! (ws ! (j * 2))" "ss2 ! (ws ! (j * 2 + 1)) = ss ! (ws ! (j * 2 + 1))"
        by simp_all
      with l3 [OF 2] show ?thesis by simp
    qed
  qed
  show ?case
    unfolding linked_def using p1 p2 p3 by blast
qed

lemma eligible_paired:
  "eligible sv paired = (\<lambda>s. \<not> homeStar s \<and> wormHoleToStarId s = None \<and> \<not> isDeadStar sv s)"
  by (auto simp: eligible_def paired_def fun_eq_iff)

lemma generateWormHoles_eq:
  "generateWormHoles sv rand game ss pc P =
     (case wormHoleLoop (winners sv rand paired (wormHoleCount (length ss) pc P * 2) ss)
             [0..<nat (wormHoleCount (length ss) pc P)] ss of
        Inl e \<Rightarrow> Inl e
      | Inr ss' \<Rightarrow> Inr (ss', snd (shuffle sv rand (applicableStars (eligible sv paired) ss))))"
  unfolding generateWormHoles_def winners_def wormHoleCount_def eligible_paired Let_def
  by (cases "shuffle sv rand (applicableStars
        (\<lambda>s. \<not> homeStar s \<and> wormHoleToStarId s = None \<and> \<not> isDeadStar sv s) ss)")
     (simp split: sum.splits)

lemma length_pairRefs: "length (pairRefs ws is) = 2 * length is"
  by (induction "is") (simp_all add: pairRefs_def)

lemma distinct_pairRefs:
  "distinct ws \<Longrightarrow> distinct is \<Longrightarrow> \<forall>i \<in> set is. i * 2 + 1 < length ws \<Longrightarrow>
   distinct (pairRefs ws is)"
proof (induction "is")
  case Nil
  then show ?case by (simp add: pairRefs_def)
next
  case (Cons i "is")
  have "\<And>j. j \<in> set is \<Longrightarrow>
      ws ! (j * 2) \<noteq> ws ! (i * 2) \<and> ws ! (j * 2) \<noteq> ws ! (i * 2 + 1) \<and>
      ws ! (j * 2 + 1) \<noteq> ws ! (i * 2) \<and> ws ! (j * 2 + 1) \<noteq> ws ! (i * 2 + 1)"
  proof -
    fix j assume j: "j \<in> set is"
    with Cons.prems(2) have "j \<noteq> i" by auto
    moreover from j Cons.prems(3) have "j * 2 + 1 < length ws" "i * 2 + 1 < length ws" by simp_all
    ultimately show "ws ! (j * 2) \<noteq> ws ! (i * 2) \<and> ws ! (j * 2) \<noteq> ws ! (i * 2 + 1) \<and>
      ws ! (j * 2 + 1) \<noteq> ws ! (i * 2) \<and> ws ! (j * 2 + 1) \<noteq> ws ! (i * 2 + 1)"
      using Cons.prems(1) by (simp add: nth_eq_iff_index_eq)
  qed
  then have "ws ! (i * 2) \<notin> set (pairRefs ws is)" "ws ! (i * 2 + 1) \<notin> set (pairRefs ws is)"
    unfolding pairRefs_in by metis+
  moreover have "ws ! (i * 2) \<noteq> ws ! (i * 2 + 1)"
    using Cons.prems(1,3) by (simp add: nth_eq_iff_index_eq)
  moreover have "distinct (pairRefs ws is)"
    using Cons by simp
  moreover have "pairRefs ws (i # is) = ws ! (i * 2) # ws ! (i * 2 + 1) # pairRefs ws is"
    by (simp add: pairRefs_def)
  ultimately show ?case by simp
qed

lemma pairRefs_subset:
  "\<forall>i \<in> set is. i * 2 + 1 < length ws \<Longrightarrow> set (pairRefs ws is) \<subseteq> set ws"
proof
  fix x assume r: "\<forall>i \<in> set is. i * 2 + 1 < length ws" and "x \<in> set (pairRefs ws is)"
  then obtain i where i: "i \<in> set is" "x = ws ! (i * 2) \<or> x = ws ! (i * 2 + 1)"
    by (auto simp: pairRefs_in)
  with r have "i * 2 < length ws" "i * 2 + 1 < length ws" by auto
  with i(2) show "x \<in> set ws" using nth_mem by blast
qed

lemma linked_newlyMarked:
  assumes l: "linked ws is ss ss'"
    and d: "distinct ws" "distinct is"
    and r: "\<forall>i \<in> set is. i * 2 + 1 < length ws"
    and w: "\<forall>x \<in> set ws. x < length ss \<and> \<not> paired (ss ! x)"
  shows "length (newlyMarked paired ss ss') = 2 * length is"
proof -
  have sub: "set (pairRefs ws is) \<subseteq> set ws" by (rule pairRefs_subset [OF r])
  have "set (newlyMarked paired ss ss') = set (pairRefs ws is)"
  proof (intro set_eqI iffI)
    fix x assume "x \<in> set (newlyMarked paired ss ss')"
    then have x: "x < length ss" "\<not> paired (ss ! x)" "paired (ss' ! x)"
      by (simp_all add: newlyMarked_def)
    show "x \<in> set (pairRefs ws is)"
    proof (rule ccontr)
      assume "x \<notin> set (pairRefs ws is)"
      with l x(1) have "ss' ! x = ss ! x" by (simp add: linked_def)
      with x show False by simp
    qed
  next
    fix x assume x: "x \<in> set (pairRefs ws is)"
    with sub w have "x < length ss" "\<not> paired (ss ! x)" by auto
    moreover from x l have "paired (ss' ! x)"
      by (auto simp: pairRefs_in linked_def paired_def)
    ultimately show "x \<in> set (newlyMarked paired ss ss')"
      by (simp add: newlyMarked_def)
  qed
  moreover have "distinct (newlyMarked paired ss ss')" by (simp add: newlyMarked_def)
  ultimately have "length (newlyMarked paired ss ss') = length (pairRefs ws is)"
    using distinct_pairRefs [OF d r] by (metis distinct_card)
  then show ?thesis by (simp add: length_pairRefs)
qed

lemma wormHole_in_range:
  assumes p: "permuting (shuffle sv)"
    and a: "2 * wormHoleCount (length ss) pc P \<le> int (length (applicableStars (eligible sv paired) ss))"
  shows "\<forall>i \<in> set [0..<nat (wormHoleCount (length ss) pc P)].
           i * 2 + 1 < length (winners sv rand paired (wormHoleCount (length ss) pc P * 2) ss)"
proof (cases "0 \<le> wormHoleCount (length ss) pc P")
  case True
  then have "length (winners sv rand paired (wormHoleCount (length ss) pc P * 2) ss)
      = nat (wormHoleCount (length ss) pc P * 2)"
    using a length_winners [OF p, of "wormHoleCount (length ss) pc P * 2" rand paired ss] by simp
  then show ?thesis using True by auto
next
  case False
  then show ?thesis by simp
qed

lemma generateWormHoles_linked:
  assumes p: "permuting (shuffle sv)"
    and r: "generateWormHoles sv rand game ss pc P = Inr (ss', rand')"
  shows "linked (winners sv rand paired (wormHoleCount (length ss) pc P * 2) ss)
           [0..<nat (wormHoleCount (length ss) pc P)] ss ss'"
proof -
  let ?ws = "winners sv rand paired (wormHoleCount (length ss) pc P * 2) ss"
  from r have "wormHoleLoop ?ws [0..<nat (wormHoleCount (length ss) pc P)] ss = Inr ss'"
    by (simp add: generateWormHoles_eq split: sum.splits)
  moreover have "\<forall>x \<in> set ?ws. x < length ss"
    using winners_subset [OF p] by blast
  ultimately show ?thesis
    using winners_distinct [OF p] by (intro wormHoleLoop_linked) simp_all
qed

lemma linked_ids:
  assumes l: "linked ws is ss ss'"
  shows "map star_id ss' = map star_id ss"
proof (rule nth_equalityI)
  show "length (map star_id ss') = length (map star_id ss)"
    using l by (simp add: linked_def)
next
  fix x assume "x < length (map star_id ss')"
  then have x: "x < length ss" "x < length ss'" using l by (simp_all add: linked_def)
  have "star_id (ss' ! x) = star_id (ss ! x)"
  proof (cases "x \<in> set (pairRefs ws is)")
    case True
    then obtain i where "i \<in> set is" "x = ws ! (i * 2) \<or> x = ws ! (i * 2 + 1)"
      by (auto simp: pairRefs_in)
    with l show ?thesis by (auto simp: linked_def)
  next
    case False
    with l x show ?thesis by (simp add: linked_def)
  qed
  with x show "map star_id ss' ! x = map star_id ss ! x" by simp
qed

lemma mutual_index:
  "wormHolesMutual ss \<longleftrightarrow>
     (\<forall>x < length ss. \<forall>y < length ss.
        wormHoleToStarId (ss ! x) = Some (star_id (ss ! y)) \<longrightarrow>
        wormHoleToStarId (ss ! y) = Some (star_id (ss ! x)) \<and> star_id (ss ! x) \<noteq> star_id (ss ! y))"
proof
  assume m: "wormHolesMutual ss"
  show "\<forall>x < length ss. \<forall>y < length ss.
        wormHoleToStarId (ss ! x) = Some (star_id (ss ! y)) \<longrightarrow>
        wormHoleToStarId (ss ! y) = Some (star_id (ss ! x)) \<and> star_id (ss ! x) \<noteq> star_id (ss ! y)"
  proof (intro allI impI)
    fix x y assume "x < length ss" "y < length ss"
      and e: "wormHoleToStarId (ss ! x) = Some (star_id (ss ! y))"
    then have "ss ! x \<in> set ss" "ss ! y \<in> set ss" by simp_all
    with m e show "wormHoleToStarId (ss ! y) = Some (star_id (ss ! x))
        \<and> star_id (ss ! x) \<noteq> star_id (ss ! y)"
      unfolding wormHolesMutual_def by blast
  qed
next
  assume m: "\<forall>x < length ss. \<forall>y < length ss.
        wormHoleToStarId (ss ! x) = Some (star_id (ss ! y)) \<longrightarrow>
        wormHoleToStarId (ss ! y) = Some (star_id (ss ! x)) \<and> star_id (ss ! x) \<noteq> star_id (ss ! y)"
  show "wormHolesMutual ss"
    unfolding wormHolesMutual_def
  proof (intro ballI impI)
    fix a b assume "a \<in> set ss" "b \<in> set ss"
      and e: "wormHoleToStarId a = Some (star_id b)"
    then obtain x y where "x < length ss" "a = ss ! x" "y < length ss" "b = ss ! y"
      by (auto simp: in_set_conv_nth)
    with m e show "wormHoleToStarId b = Some (star_id a) \<and> star_id a \<noteq> star_id b"
      by blast
  qed
qed

lemma mutual_cong:
  assumes i: "map star_id ss' = map star_id ss"
    and w: "map wormHoleToStarId ss' = map wormHoleToStarId ss"
  shows "wormHolesMutual ss' = wormHolesMutual ss"
proof -
  have l: "length ss' = length ss" using i by (metis length_map)
  have "\<And>x. x < length ss \<Longrightarrow> star_id (ss' ! x) = star_id (ss ! x)"
    using i l by (metis nth_map)
  moreover have "\<And>x. x < length ss \<Longrightarrow> wormHoleToStarId (ss' ! x) = wormHoleToStarId (ss ! x)"
    using w l by (metis nth_map)
  ultimately show ?thesis
    unfolding mutual_index l by simp
qed

lemma linked_mutual:
  assumes l: "linked ws is ss ss'"
    and d: "distinct ws"
    and r: "\<forall>i \<in> set is. i * 2 + 1 < length ws"
    and w: "\<And>x. x \<in> set ws \<Longrightarrow> x < length ss \<and> wormHoleToStarId (ss ! x) = None"
    and ids: "distinct (map star_id ss)"
    and m: "wormHolesMutual ss"
  shows "wormHolesMutual ss'"
  unfolding mutual_index
proof (intro allI impI)
  fix x y
  assume x: "x < length ss'" and y: "y < length ss'"
    and xy: "wormHoleToStarId (ss' ! x) = Some (star_id (ss' ! y))"
  have len: "length ss' = length ss" using l by (simp add: linked_def)
  have id: "\<And>z. z < length ss \<Longrightarrow> star_id (ss' ! z) = star_id (ss ! z)"
    using linked_ids [OF l] len by (metis nth_map)
  have inj: "\<And>a b. a < length ss \<Longrightarrow> b < length ss \<Longrightarrow> star_id (ss ! a) = star_id (ss ! b) \<Longrightarrow> a = b"
    using ids by (metis distinct_conv_nth length_map nth_map)
  have sub: "set (pairRefs ws is) \<subseteq> set ws" by (rule pairRefs_subset [OF r])
  show "wormHoleToStarId (ss' ! y) = Some (star_id (ss' ! x)) \<and> star_id (ss' ! x) \<noteq> star_id (ss' ! y)"
  proof (cases "x \<in> set (pairRefs ws is)")
    case True
    then obtain i where i: "i \<in> set is" and c: "x = ws ! (i * 2) \<or> x = ws ! (i * 2 + 1)"
      by (auto simp: pairRefs_in)
    define a b where "a = ws ! (i * 2)" and "b = ws ! (i * 2 + 1)"
    from r i have ri: "i * 2 < length ws" "i * 2 + 1 < length ws" by auto
    then have ab: "a \<noteq> b" using d by (simp add: a_def b_def nth_eq_iff_index_eq)
    have al: "a < length ss" and bl: "b < length ss"
      using w ri by (simp_all add: a_def b_def)
    from l i have ea: "ss' ! a = (ss ! a)\<lparr>wormHoleToStarId := Some (star_id (ss ! b))\<rparr>"
      and eb: "ss' ! b = (ss ! b)\<lparr>wormHoleToStarId := Some (star_id (ss ! a))\<rparr>"
      by (simp_all add: linked_def a_def b_def)
    from c consider "x = a" | "x = b" by (auto simp: a_def b_def)
    then show ?thesis
    proof cases
      case 1
      with xy ea have "star_id (ss' ! y) = star_id (ss ! b)" by simp
      with id [of y] y len have "star_id (ss ! y) = star_id (ss ! b)" by simp
      with inj [of y b] y len bl have yb: "y = b" by simp
      have "star_id (ss ! a) \<noteq> star_id (ss ! b)" using inj [OF al bl] ab by blast
      then show ?thesis by (simp add: 1 yb ea eb)
    next
      case 2
      with xy eb have "star_id (ss' ! y) = star_id (ss ! a)" by simp
      with id [of y] y len have "star_id (ss ! y) = star_id (ss ! a)" by simp
      with inj [of y a] y len al have ya: "y = a" by simp
      have "star_id (ss ! a) \<noteq> star_id (ss ! b)" using inj [OF al bl] ab by blast
      then show ?thesis by (simp add: 2 ya ea eb)
    qed
  next
    case False
    with l x len have ex: "ss' ! x = ss ! x" by (simp add: linked_def)
    with xy id [of y] y len have "wormHoleToStarId (ss ! x) = Some (star_id (ss ! y))" by simp
    moreover have "x < length ss" "y < length ss" using x y len by simp_all
    ultimately have my: "wormHoleToStarId (ss ! y) = Some (star_id (ss ! x))"
      and ne: "star_id (ss ! x) \<noteq> star_id (ss ! y)"
      using m unfolding mutual_index by blast+
    have "y \<notin> set ws"
    proof
      assume "y \<in> set ws"
      from w [OF this] my show False by simp
    qed
    with sub have "y \<notin> set (pairRefs ws is)" by auto
    with l y len have "ss' ! y = ss ! y" by (simp add: linked_def)
    with ex my ne show ?thesis by simp
  qed
qed

lemma touches_keeps_pairing:
  assumes t: "touches W rel ss ss'"
    and i: "distinct (map star_id ss) \<and> wormHolesMutual ss"
    and k: "\<And>s s'. rel s s' \<Longrightarrow>
              star_id s' = star_id s \<and> wormHoleToStarId s' = wormHoleToStarId s"
  shows "distinct (map star_id ss') \<and> wormHolesMutual ss'"
proof -
  have a: "map star_id ss' = map star_id ss"
    by (rule touches_map [OF t]) (simp add: k)
  have b: "map wormHoleToStarId ss' = map wormHoleToStarId ss"
    by (rule touches_map [OF t]) (simp add: k)
  from mutual_cong [OF a b] a i show ?thesis by simp
qed

lemma touches_homeKept:
  assumes t: "touches W rel ss ss'"
    and w: "\<And>i. i \<in> set W \<Longrightarrow> \<not> homeStar (ss ! i)"
    and k: "homeKept ss0 ss"
  shows "homeKept ss0 ss'"
  unfolding homeKept_def
proof (intro conjI allI impI)
  show "length ss' = length ss0" using t k by (simp add: touches_def homeKept_def)
next
  fix i assume i: "i < length ss0" "homeStar (ss0 ! i)"
  with k have e: "ss ! i = ss0 ! i" and l: "i < length ss" by (simp_all add: homeKept_def)
  with i w have "i \<notin> set W" by metis
  with t l have "ss' ! i = ss ! i" by (simp add: touches_def)
  with e show "ss' ! i = ss0 ! i" by simp
qed

lemma linked_homeKept:
  assumes l: "linked ws is ss ss'"
    and r: "\<forall>i \<in> set is. i * 2 + 1 < length ws"
    and w: "\<And>i. i \<in> set ws \<Longrightarrow> \<not> homeStar (ss ! i)"
    and k: "homeKept ss0 ss"
  shows "homeKept ss0 ss'"
  unfolding homeKept_def
proof (intro conjI allI impI)
  show "length ss' = length ss0" using l k by (simp add: linked_def homeKept_def)
next
  fix i assume i: "i < length ss0" "homeStar (ss0 ! i)"
  with k have e: "ss ! i = ss0 ! i" and len: "i < length ss" by (simp_all add: homeKept_def)
  with i w have "i \<notin> set ws" by metis
  with pairRefs_subset [OF r] have "i \<notin> set (pairRefs ws is)" by auto
  with l len have "ss' ! i = ss ! i" by (simp add: linked_def)
  with e show "ss' ! i = ss0 ! i" by simp
qed

section \<open>The seven passes in sequence\<close>

lemma generateTerrain_stages:
  assumes "generateTerrain sv rand q game = Inr (g', r', q')"
  obtains ss1 r1 ss2 r2 ss3 r3 q3 ss4 r4 q4 ss5 r5 ss6 r6 ss7 where
    "(if randomWarpGates game \<noteq> 0
      then generateGates sv rand (galaxy_stars game) (general_playerLimit game) (randomWarpGates game)
      else (galaxy_stars game, rand)) = (ss1, r1)"
    "(if randomWormHoles game \<noteq> 0
      then generateWormHoles sv r1 game ss1 (general_playerLimit game) (randomWormHoles game)
      else Inr (ss1, r1)) = Inr (ss2, r2)"
    "(if randomNebulas game \<noteq> 0
      then generateNebulas sv r2 q game ss2 (general_playerLimit game) (randomNebulas game)
      else (ss2, r2, q)) = (ss3, r3, q3)"
    "(if randomAsteroidFields game \<noteq> 0
      then generateAsteroidFields sv r3 q3 game ss3 (general_playerLimit game) (randomAsteroidFields game)
      else (ss3, r3, q3)) = (ss4, r4, q4)"
    "(if randomBinaryStars game \<noteq> 0
      then generateBinaryStars sv r4 q4 game ss4 (general_playerLimit game) (randomBinaryStars game)
      else (ss4, r4, q4)) = (ss5, r5, q')"
    "(if randomBlackHoles game \<noteq> 0
      then generateBlackHoles sv r5 game ss5 (general_playerLimit game) (randomBlackHoles game)
      else (ss5, r5)) = (ss6, r6)"
    "(if randomPulsars game \<noteq> 0
      then generatePulsars sv r6 game ss6 (general_playerLimit game) (randomPulsars game)
      else (ss6, r6)) = (ss7, r')"
    "g' = game\<lparr>galaxy_stars := ss7\<rparr>"
  using assms unfolding generateTerrain_def Let_def
  by (auto split: prod.splits sum.splits)

lemma generateTerrain_invariant:
  assumes run: "generateTerrain sv rand q game = Inr (g', r', q')"
    and init: "I (galaxy_stars game)"
    and gates: "\<And>rand ss pc P. I ss \<Longrightarrow> I (fst (generateGates sv rand ss pc P))"
    and worm: "\<And>rand ss pc P ss' r'. I ss \<Longrightarrow>
        generateWormHoles sv rand game ss pc P = Inr (ss', r') \<Longrightarrow> I ss'"
    and neb: "\<And>rand q ss pc P. I ss \<Longrightarrow> I (fst (generateNebulas sv rand q game ss pc P))"
    and ast: "\<And>rand q ss pc P. I ss \<Longrightarrow> I (fst (generateAsteroidFields sv rand q game ss pc P))"
    and bin: "\<And>rand q ss pc P. I ss \<Longrightarrow> I (fst (generateBinaryStars sv rand q game ss pc P))"
    and bh: "\<And>rand ss pc P. I ss \<Longrightarrow> I (fst (generateBlackHoles sv rand game ss pc P))"
    and pul: "\<And>rand ss pc P. I ss \<Longrightarrow> I (fst (generatePulsars sv rand game ss pc P))"
  shows "I (galaxy_stars g')"
proof -
  from run obtain ss1 r1 ss2 r2 ss3 r3 q3 ss4 r4 q4 ss5 r5 ss6 r6 ss7 where
    s1: "(if randomWarpGates game \<noteq> 0
      then generateGates sv rand (galaxy_stars game) (general_playerLimit game) (randomWarpGates game)
      else (galaxy_stars game, rand)) = (ss1, r1)"
    and s2: "(if randomWormHoles game \<noteq> 0
      then generateWormHoles sv r1 game ss1 (general_playerLimit game) (randomWormHoles game)
      else Inr (ss1, r1)) = Inr (ss2, r2)"
    and s3: "(if randomNebulas game \<noteq> 0
      then generateNebulas sv r2 q game ss2 (general_playerLimit game) (randomNebulas game)
      else (ss2, r2, q)) = (ss3, r3, q3)"
    and s4: "(if randomAsteroidFields game \<noteq> 0
      then generateAsteroidFields sv r3 q3 game ss3 (general_playerLimit game) (randomAsteroidFields game)
      else (ss3, r3, q3)) = (ss4, r4, q4)"
    and s5: "(if randomBinaryStars game \<noteq> 0
      then generateBinaryStars sv r4 q4 game ss4 (general_playerLimit game) (randomBinaryStars game)
      else (ss4, r4, q4)) = (ss5, r5, q')"
    and s6: "(if randomBlackHoles game \<noteq> 0
      then generateBlackHoles sv r5 game ss5 (general_playerLimit game) (randomBlackHoles game)
      else (ss5, r5)) = (ss6, r6)"
    and s7: "(if randomPulsars game \<noteq> 0
      then generatePulsars sv r6 game ss6 (general_playerLimit game) (randomPulsars game)
      else (ss6, r6)) = (ss7, r')"
    and g: "g' = game\<lparr>galaxy_stars := ss7\<rparr>"
    by (rule generateTerrain_stages)
  have "I ss1"
    using s1 init gates [OF init, of rand "general_playerLimit game" "randomWarpGates game"]
    by (auto split: if_splits)
  then have "I ss2"
    using s2 worm by (auto split: if_splits)
  then have "I ss3"
    using s3 neb [of ss2 r2 q "general_playerLimit game" "randomNebulas game"]
    by (auto split: if_splits)
  then have "I ss4"
    using s4 ast [of ss3 r3 q3 "general_playerLimit game" "randomAsteroidFields game"]
    by (auto split: if_splits)
  then have "I ss5"
    using s5 bin [of ss4 r4 q4 "general_playerLimit game" "randomBinaryStars game"]
    by (auto split: if_splits)
  then have "I ss6"
    using s6 bh [of ss5 r5 "general_playerLimit game" "randomBlackHoles game"]
    by (auto split: if_splits)
  then have "I ss7"
    using s7 pul [of ss6 r6 "general_playerLimit game" "randomPulsars game"]
    by (auto split: if_splits)
  with g show ?thesis by simp
qed

section \<open>The loops of star generation\<close>

lemma linkedLoop_eq:
  "linkedLoop sv c names ls (created, ll, idx) =
     (created @ map (\<lambda>(k, l). makeStar sv c (elemAt names k) l) (enumerate idx ls),
      ll @ map (\<lambda>(k, l). star_id (makeStar sv c (elemAt names k) l)) (enumerate idx ls),
      idx + length ls)"
  by (induction ls arbitrary: created ll idx) (simp_all add: Let_def)

lemma starLoop_stars:
  assumes "\<And>l. l \<in> set locs \<Longrightarrow> loc_homeStar l \<Longrightarrow> loc_linkedLocations l \<noteq> None"
  shows "\<exists>res'. starLoop sv c names locs (res, idx) =
            Inr (res', idx + length (concat (map (\<lambda>l. l # (if loc_homeStar l
                            then (case loc_linkedLocations l of None \<Rightarrow> [] | Some ls \<Rightarrow> ls)
                            else [])) locs)))
          \<and> stars res' = stars res @ map (\<lambda>(k, l). makeStar sv c (elemAt names k) l)
               (enumerate idx (concat (map (\<lambda>l. l # (if loc_homeStar l
                            then (case loc_linkedLocations l of None \<Rightarrow> [] | Some ls \<Rightarrow> ls)
                            else [])) locs)))"
  using assms
proof (induction locs arbitrary: res idx)
  case Nil
  then show ?case by simp
next
  case (Cons l locs)
  show ?case
  proof (cases "loc_homeStar l")
    case False
    with Cons.IH [of "res\<lparr>stars := stars res @ [makeStar sv c (elemAt names idx) l]\<rparr>" "Suc idx"]
      Cons.prems
    show ?thesis by (auto simp: Let_def enumerate_append_eq)
  next
    case True
    with Cons.prems obtain ls where ls: "loc_linkedLocations l = Some ls" by auto
    show ?thesis
      using True ls Cons.prems
        Cons.IH [of "\<lparr>stars = (stars res @ [makeStar sv c (elemAt names idx) l]) @ map (\<lambda>(k, l). makeStar sv c (elemAt names k) l) (enumerate (Suc idx) ls),
          homeStars = homeStars res @ [star_id (makeStar sv c (elemAt names idx) l)],
          linkedStars = linkedStars res @ [[] @ map (\<lambda>(k, l). star_id (makeStar sv c (elemAt names k) l)) (enumerate (Suc idx) ls)]\<rparr>"
          "Suc idx + length ls"]
      by (auto simp: Let_def linkedLoop_eq enumerate_append_eq add.commute add.left_commute)
  qed
qed

section \<open>Wormhole pairing\<close>

text \<open>
  Claim C1. When \<^verbatim>\<open>generateTerrain\<close> returns, wormhole pairing is mutual and no star leads
  to itself: for stars \<open>a\<close> and \<open>b\<close> of the galaxy, if \<open>a\<close> leads to \<open>b\<close> then \<open>b\<close> leads to
  \<open>a\<close> and \<open>a\<close> is not \<open>b\<close>. The galaxy it is given has distinct star ids and a pairing
  that is mutual already (a new galaxy has no wormhole at all), and the shuffle permutes.
\<close>

theorem wormholes_mutual:
  assumes p: "permuting (shuffle sv)"
    and ids: "distinct (map star_id (galaxy_stars game))"
    and m: "wormHolesMutual (galaxy_stars game)"
    and run: "generateTerrain sv rand q game = Inr (game', rand', q')"
  shows "wormHolesMutual (galaxy_stars game')"
proof -
  let ?I = "\<lambda>ss. distinct (map star_id ss) \<and> wormHolesMutual ss"
  have "?I (galaxy_stars game')"
    using run
  proof (rule generateTerrain_invariant)
    show "?I (galaxy_stars game)" using ids m by simp
  next
    fix rand ss pc P assume "?I ss"
    with generateGates_touches [OF p]
    show "?I (fst (generateGates sv rand ss pc P))"
      by (rule touches_keeps_pairing) simp
  next
    fix rand ss pc P ss' r'
    assume i: "?I ss" and r: "generateWormHoles sv rand game ss pc P = Inr (ss', r')"
    let ?ws = "winners sv rand paired (wormHoleCount (length ss) pc P * 2) ss"
    let ?is = "[0..<nat (wormHoleCount (length ss) pc P)]"
    note l = generateWormHoles_linked [OF p r]
    from r have loop: "wormHoleLoop ?ws ?is ss = Inr ss'"
      by (simp add: generateWormHoles_eq split: sum.splits)
    have rng: "\<forall>i \<in> set ?is. i * 2 + 1 < length ?ws"
      using wormHoleLoop_in_range [OF loop] by blast
    have w: "\<And>x. x \<in> set ?ws \<Longrightarrow> x < length ss \<and> wormHoleToStarId (ss ! x) = None"
    proof -
      fix x assume "x \<in> set ?ws"
      from winners_subset [OF p this]
      show "x < length ss \<and> wormHoleToStarId (ss ! x) = None"
        by (simp add: eligible_def paired_def)
    qed
    have "wormHolesMutual ss'"
      using l winners_distinct [OF p] rng w conjunct1 [OF i] conjunct2 [OF i]
      by (rule linked_mutual)
    moreover have "distinct (map star_id ss')"
      using linked_ids [OF l] i by simp
    ultimately show "?I ss'" by simp
  next
    fix rand q ss pc P assume "?I ss"
    with generateNebulas_touches [OF p]
    show "?I (fst (generateNebulas sv rand q game ss pc P))"
      by (rule touches_keeps_pairing) (auto simp: nebulaBody_keeps)
  next
    fix rand q ss pc P assume "?I ss"
    with generateAsteroidFields_touches [OF p]
    show "?I (fst (generateAsteroidFields sv rand q game ss pc P))"
      by (rule touches_keeps_pairing) (auto simp: asteroidFieldBody_keeps)
  next
    fix rand q ss pc P assume "?I ss"
    with generateBinaryStars_touches [OF p]
    show "?I (fst (generateBinaryStars sv rand q game ss pc P))"
      by (rule touches_keeps_pairing) (auto simp: binaryStarBody_keeps)
  next
    fix rand ss pc P assume "?I ss"
    with generateBlackHoles_touches [OF p]
    show "?I (fst (generateBlackHoles sv rand game ss pc P))"
      by (rule touches_keeps_pairing) (auto simp: blackHoleBody_keeps)
  next
    fix rand ss pc P assume "?I ss"
    with generatePulsars_touches [OF p]
    show "?I (fst (generatePulsars sv rand game ss pc P))"
      by (rule touches_keeps_pairing) simp
  qed
  then show ?thesis by simp
qed

theorem wormholes_mutual_witness:
  "permuting (shuffle (exampleService False []))
   \<and> distinct (map star_id (exampleGalaxy 5 1))
   \<and> wormHolesMutual (exampleGalaxy 5 1)
   \<and> map wormHoleToStarId (galaxy_stars (fst (projr
         (generateTerrain (exampleService False []) 0 []
            (exampleGame\<lparr>randomWormHoles := 50, galaxy_stars := exampleGalaxy 5 1\<rparr>)))))
       = [None, None, None, Some 4, Some 3]
   \<and> wormHolesMutual (galaxy_stars (fst (projr
         (generateTerrain (exampleService False []) 0 []
            (exampleGame\<lparr>randomWormHoles := 50, galaxy_stars := exampleGalaxy 5 1\<rparr>)))))"
proof -
  let ?game = "exampleGame\<lparr>randomWormHoles := 50, galaxy_stars := exampleGalaxy 5 1\<rparr>"
  let ?after = "(exampleGalaxy 5 1)
      [3 := (plainStar 3 False)\<lparr>wormHoleToStarId := Some 4\<rparr>,
       4 := (plainStar 4 False)\<lparr>wormHoleToStarId := Some 3\<rparr>]"
  have ids: "distinct (map star_id (galaxy_stars ?game))"
    by code_simp
  have m: "wormHolesMutual (galaxy_stars ?game)"
    by code_simp
  have run: "generateTerrain (exampleService False []) 0 [] ?game
      = Inr (?game\<lparr>galaxy_stars := ?after\<rparr>, 1, [])"
    by code_simp
  have w: "map wormHoleToStarId ?after = [None, None, None, Some 4, Some 3]"
    by code_simp
  from wormholes_mutual [OF permuting_example ids m run]
  have "wormHolesMutual ?after" by simp
  with ids m w run permuting_example show ?thesis by simp
qed

section \<open>Quotas\<close>

text \<open>
  Claim C2. Each single-star pass is to mark \<open>\<lfloor>N \<cdot> P / 100\<rfloor>\<close> stars, \<open>N\<close> the star count
  less the player count and \<open>P\<close> the percentage. The passes compute the count in doubles,
  as the floor of \<^verbatim>\<open>(stars.length - playerCount) / 100 * percentage\<close>: the division
  comes first, and its quotient is rounded. With 120 stars, 4 of them home stars, 4
  players and 25 percent, \<^verbatim>\<open>116 / 100 * 25\<close> is just below 29, and 28 of the 116 eligible
  stars become warp gates where \<open>\<lfloor>116 \<cdot> 25 / 100\<rfloor>\<close> is 29. With 33 stars, 4 players and 100
  percent, 28 of the 29 eligible stars become pulsars. In the scenario of 100 stars, 4
  players and 10 percent, 9 stars become warp gates.
\<close>

theorem single_star_quota_rounding:
  "length (applicableStars (eligible (exampleService False []) warpGate) (exampleGalaxy 120 4)) = 116
   \<and> length (newlyMarked warpGate (exampleGalaxy 120 4)
         (fst (generateGates (exampleService False []) 0 (exampleGalaxy 120 4) 4 25))) = 28
   \<and> \<lfloor>((120 - 4) * 25 / 100 :: rat)\<rfloor> = 29
   \<and> length (applicableStars (eligible (exampleService False []) isPulsar) (exampleGalaxy 33 4)) = 29
   \<and> length (newlyMarked isPulsar (exampleGalaxy 33 4)
         (fst (generatePulsars (exampleService False []) 0 exampleGame (exampleGalaxy 33 4) 4 100)))
       = 28
   \<and> \<lfloor>((33 - 4) * 100 / 100 :: rat)\<rfloor> = 29
   \<and> length (newlyMarked warpGate (exampleGalaxy 100 4)
         (fst (generateGates (exampleService False []) 0 (exampleGalaxy 100 4) 4 10))) = 9"
  by code_simp

text \<open>
  Claim C3, as amended. Let \<open>N\<close> be the star count less the player count and \<open>P\<close> the
  wormhole percentage, whole numbers with \<open>N \<cdot> P < 2\<^sup>4\<^sup>0\<close> and \<open>N \<cdot> P\<close> not a multiple of 200.
  When the shuffle returns a permutation and at least \<open>2 \<cdot> \<lfloor>N \<cdot> P / 200\<rfloor>\<close> stars pass the
  filter of the wormhole pass (not a home star, not paired, not dead), the pass returns
  and has made exactly \<open>\<lfloor>N \<cdot> P / 200\<rfloor>\<close> pairs: \<open>2 \<cdot> \<lfloor>N \<cdot> P / 200\<rfloor>\<close> stars are newly paired.
\<close>

theorem wormhole_quota:
  fixes k P :: nat
  assumes p: "permuting (shuffle sv)"
    and small: "(length ss - k) * P < 2 ^ 40"
    and nm: "\<not> 200 dvd (length ss - k) * P"
    and a: "2 * ((length ss - k) * P div 200)
              \<le> length (applicableStars (eligible sv paired) ss)"
  shows "\<exists>ss' rand'.
           generateWormHoles sv rand game ss (of_nat k) (of_nat P) = Inr (ss', rand')
           \<and> length (newlyMarked paired ss ss') = 2 * ((length ss - k) * P div 200)"
proof -
  let ?c = "wormHoleCount (length ss) (of_nat k) (of_nat P)"
  let ?ws = "winners sv rand paired (?c * 2) ss"
  from nm have k: "k \<le> length ss"
    by (cases "k \<le> length ss") simp_all
  from wormHoleCount_near [OF k small] nm
  have c: "?c = int ((length ss - k) * P div 200)" by blast
  from a c have a': "2 * ?c \<le> int (length (applicableStars (eligible sv paired) ss))"
    by simp
  note rng = wormHole_in_range [OF p a', of rand]
  from wormHoleLoop_returns [OF rng, of ss] obtain ss' where
    loop: "wormHoleLoop ?ws [0..<nat ?c] ss = Inr ss'" by blast
  then have r: "generateWormHoles sv rand game ss (of_nat k) (of_nat P)
      = Inr (ss', snd (shuffle sv rand (applicableStars (eligible sv paired) ss)))"
    by (simp add: generateWormHoles_eq)
  have w: "\<forall>x \<in> set ?ws. x < length ss \<and> \<not> paired (ss ! x)"
  proof
    fix x assume "x \<in> set ?ws"
    from winners_subset [OF p this] show "x < length ss \<and> \<not> paired (ss ! x)"
      by (simp add: eligible_def)
  qed
  have "length (newlyMarked paired ss ss') = 2 * length [0..<nat ?c]"
    using generateWormHoles_linked [OF p r] winners_distinct [OF p] rng w
    by (intro linked_newlyMarked) simp_all
  then have "length (newlyMarked paired ss ss') = 2 * ((length ss - k) * P div 200)"
    by (simp add: c)
  with r show ?thesis by blast
qed

theorem wormhole_quota_witness:
  "permuting (shuffle (exampleService False []))
   \<and> length (exampleGalaxy 100 4) = 100
   \<and> (length (exampleGalaxy 100 4) - 4) * 10 < (2 :: nat) ^ 40
   \<and> (length (exampleGalaxy 100 4) - 4) * 10 mod 200 = (160 :: nat)
   \<and> length (applicableStars (eligible (exampleService False []) paired) (exampleGalaxy 100 4))
       = 96
   \<and> (\<exists>ss' rand'.
         generateWormHoles (exampleService False []) 0 exampleGame (exampleGalaxy 100 4) 4 10
           = Inr (ss', rand')
         \<and> length (newlyMarked paired (exampleGalaxy 100 4) ss') = 8)"
proof -
  have len: "length (exampleGalaxy 100 4) = 100"
    by (simp add: exampleGalaxy_def)
  have small: "(length (exampleGalaxy 100 4) - 4) * 10 < (2 :: nat) ^ 40"
    by (simp add: len)
  have md: "(length (exampleGalaxy 100 4) - 4) * 10 mod 200 = (160 :: nat)"
    by (simp add: len)
  then have nm: "\<not> 200 dvd (length (exampleGalaxy 100 4) - 4) * 10"
    by (simp add: dvd_eq_mod_eq_0)
  have app: "length (applicableStars (eligible (exampleService False []) paired)
      (exampleGalaxy 100 4)) = 96"
    by code_simp
  have a: "2 * ((length (exampleGalaxy 100 4) - 4) * 10 div 200)
        \<le> length (applicableStars (eligible (exampleService False []) paired)
              (exampleGalaxy 100 4))"
    by (simp add: len app)
  from wormhole_quota [OF permuting_example small nm a, where rand = 0 and game = exampleGame]
  have "\<exists>ss' rand'.
         generateWormHoles (exampleService False []) 0 exampleGame (exampleGalaxy 100 4) 4 10
           = Inr (ss', rand')
         \<and> length (newlyMarked paired (exampleGalaxy 100 4) ss') = 8"
    by (simp add: len)
  with len small md app permuting_example show ?thesis by simp
qed

text \<open>
  With 100 stars, 4 players and 10 percent the pass makes 4 pairs, 8 stars, where
  \<open>\<lfloor>N \<cdot> P / 100\<rfloor>\<close> pairs would be 9 pairs, 18 stars.
\<close>

theorem wormhole_quota_counterexample:
  "\<not> isl (generateWormHoles (exampleService False []) 0 exampleGame (exampleGalaxy 100 4) 4 10)
   \<and> length (newlyMarked paired (exampleGalaxy 100 4) (fst (projr
         (generateWormHoles (exampleService False []) 0 exampleGame (exampleGalaxy 100 4) 4 10))))
       = 8
   \<and> 2 * \<lfloor>((100 - 4) * 10 / 100 :: rat)\<rfloor> = 18"
  by code_simp

section \<open>Home stars and their linked stars\<close>

text \<open>
  Claim C4, as amended. \<^verbatim>\<open>generateTerrain\<close> changes no star whose \<^verbatim>\<open>homeStar\<close> flag is set:
  when it returns, every home star is as it was, so a home star that carried no terrain
  feature carries none. The linked stars of a home star have no such protection: the passes
  never consult \<^verbatim>\<open>linkedStars\<close>, and a linked star is eligible like any other star that is
  not a home star.
\<close>

theorem home_stars_untouched:
  assumes p: "permuting (shuffle sv)"
    and run: "generateTerrain sv rand q game = Inr (game', rand', q')"
  shows "length (galaxy_stars game') = length (galaxy_stars game)
       \<and> (\<forall>i < length (galaxy_stars game).
            homeStar (galaxy_stars game ! i) \<longrightarrow> galaxy_stars game' ! i = galaxy_stars game ! i)"
proof -
  have "homeKept (galaxy_stars game) (galaxy_stars game')"
    using run
  proof (rule generateTerrain_invariant)
    show "homeKept (galaxy_stars game) (galaxy_stars game)" by (simp add: homeKept_def)
  next
    fix rand ss pc P assume "homeKept (galaxy_stars game) ss"
    with generateGates_touches [OF p] winners_not_home [OF p]
    show "homeKept (galaxy_stars game) (fst (generateGates sv rand ss pc P))"
      by (rule touches_homeKept)
  next
    fix rand ss pc P ss' r'
    assume k: "homeKept (galaxy_stars game) ss"
      and r: "generateWormHoles sv rand game ss pc P = Inr (ss', r')"
    let ?ws = "winners sv rand paired (wormHoleCount (length ss) pc P * 2) ss"
    from r have loop: "wormHoleLoop ?ws [0..<nat (wormHoleCount (length ss) pc P)] ss = Inr ss'"
      by (simp add: generateWormHoles_eq split: sum.splits)
    have "\<forall>i \<in> set [0..<nat (wormHoleCount (length ss) pc P)]. i * 2 + 1 < length ?ws"
      using wormHoleLoop_in_range [OF loop] by blast
    with generateWormHoles_linked [OF p r] show "homeKept (galaxy_stars game) ss'"
      using winners_not_home [OF p] k by (rule linked_homeKept)
  next
    fix rand q ss pc P assume "homeKept (galaxy_stars game) ss"
    with generateNebulas_touches [OF p] winners_not_home [OF p]
    show "homeKept (galaxy_stars game) (fst (generateNebulas sv rand q game ss pc P))"
      by (rule touches_homeKept)
  next
    fix rand q ss pc P assume "homeKept (galaxy_stars game) ss"
    with generateAsteroidFields_touches [OF p] winners_not_home [OF p]
    show "homeKept (galaxy_stars game) (fst (generateAsteroidFields sv rand q game ss pc P))"
      by (rule touches_homeKept)
  next
    fix rand q ss pc P assume "homeKept (galaxy_stars game) ss"
    with generateBinaryStars_touches [OF p] winners_not_home [OF p]
    show "homeKept (galaxy_stars game) (fst (generateBinaryStars sv rand q game ss pc P))"
      by (rule touches_homeKept)
  next
    fix rand ss pc P assume "homeKept (galaxy_stars game) ss"
    with generateBlackHoles_touches [OF p] winners_not_home [OF p]
    show "homeKept (galaxy_stars game) (fst (generateBlackHoles sv rand game ss pc P))"
      by (rule touches_homeKept)
  next
    fix rand ss pc P assume "homeKept (galaxy_stars game) ss"
    with generatePulsars_touches [OF p] winners_not_home [OF p]
    show "homeKept (galaxy_stars game) (fst (generatePulsars sv rand game ss pc P))"
      by (rule touches_homeKept)
  qed
  then show ?thesis by (simp add: homeKept_def)
qed

theorem home_stars_untouched_witness:
  "permuting (shuffle (exampleService False []))
   \<and> generateTerrain (exampleService False []) 0 []
        (exampleGame\<lparr>randomWarpGates := 50, galaxy_stars := exampleStars\<rparr>)
      = Inr (exampleGame\<lparr>randomWarpGates := 50,
               galaxy_stars := exampleStars[2 := (plainStar 2 False)\<lparr>warpGate := True\<rparr>]\<rparr>, 1, [])
   \<and> homeStar (exampleStars ! 0)
   \<and> (exampleStars[2 := (plainStar 2 False)\<lparr>warpGate := True\<rparr>]) ! 0 = exampleStars ! 0"
proof -
  let ?game = "exampleGame\<lparr>randomWarpGates := 50, galaxy_stars := exampleStars\<rparr>"
  let ?after = "exampleStars[2 := (plainStar 2 False)\<lparr>warpGate := True\<rparr>]"
  have run: "generateTerrain (exampleService False []) 0 [] ?game
      = Inr (?game\<lparr>galaxy_stars := ?after\<rparr>, 1, [])"
    by code_simp
  have h: "homeStar (galaxy_stars ?game ! 0)" "0 < length (galaxy_stars ?game)"
    by (simp_all add: exampleStars_def plainStar_def)
  from home_stars_untouched [OF permuting_example run] h
  have "galaxy_stars (?game\<lparr>galaxy_stars := ?after\<rparr>) ! 0 = galaxy_stars ?game ! 0"
    by blast
  with run h permuting_example show ?thesis by simp
qed

text \<open>
  A starting cluster: \<^verbatim>\<open>generateStars\<close> makes the home star 0 and its linked stars 1 and
  2. With one player and a warp-gate percentage of 50, \<^verbatim>\<open>generateTerrain\<close> then makes the
  linked star 2 a warp gate.
\<close>

theorem linked_star_counterexample:
  "generateStars (exampleService False clusterLocations) 0 exampleGame 3 1 None None
     = Inr (\<lparr>stars = clusterStars, homeStars = [0], linkedStars = [[1, 2]]\<rparr>, 0)
   \<and> map (\<lambda>s. (star_id s, homeStar s, warpGate s))
         (galaxy_stars (fst (projr
            (generateTerrain (exampleService False clusterLocations) 0 []
               (exampleGame\<lparr>randomWarpGates := 50, galaxy_stars := clusterStars\<rparr>)))))
     = [(0, True, False), (1, False, False), (2, False, True)]"
  by code_simp

section \<open>Reproducibility\<close>

text \<open>
  Claim C5. Two runs of \<^verbatim>\<open>generateTerrain\<close> on the same game and stars, with the seeded
  generator \<^verbatim>\<open>rand\<close> in the same state: the binary-star pass marks the same star in both,
  and gives it the resources that \<^verbatim>\<open>randomService\<close> returns, 80 in one run and 120 in the
  other. The resource values are drawn from \<^verbatim>\<open>this.randomService\<close>, not from \<^verbatim>\<open>rand\<close>.
\<close>

theorem terrain_resources_not_from_rand:
  "map (\<lambda>s. (isBinaryStar s, naturalResources s))
     (galaxy_stars (fst (projr
        (generateTerrain (exampleService False []) 0 [80]
           (exampleGame\<lparr>randomBinaryStars := 50, galaxy_stars := exampleStars\<rparr>)))))
     = [(False, \<lparr>economy = 10, industry = 23, science = 50\<rparr>),
        (False, \<lparr>economy = 10, industry = 23, science = 50\<rparr>),
        (True, \<lparr>economy = 80, industry = 80, science = 80\<rparr>)]
   \<and> map (\<lambda>s. (isBinaryStar s, naturalResources s))
     (galaxy_stars (fst (projr
        (generateTerrain (exampleService False []) 0 [120]
           (exampleGame\<lparr>randomBinaryStars := 50, galaxy_stars := exampleStars\<rparr>)))))
     = [(False, \<lparr>economy = 10, industry = 23, science = 50\<rparr>),
        (False, \<lparr>economy = 10, industry = 23, science = 50\<rparr>),
        (True, \<lparr>economy = 120, industry = 120, science = 120\<rparr>)]"
  by code_simp

section \<open>Geometry queries\<close>

text \<open>
  Claim C6. \<^verbatim>\<open>getGalaxyCenter\<close> sorts the array it is given: called on the locations
  \<open>(0, 1)\<close> and \<open>(0, 0)\<close> it returns the centre \<open>(0, 1/2)\<close> and leaves the array in the order
  \<open>(0, 0)\<close>, \<open>(0, 1)\<close>. \<^verbatim>\<open>getGalaxyCenterOfMass\<close> leaves the same array as it was.
\<close>

theorem getGalaxyCenter_reorders:
  "getGalaxyCenter [Location 0 1 False False None None, Location 0 0 False False None None]
     = ((0, 1 / 2), [Location 0 0 False False None None, Location 0 1 False False None None])
   \<and> snd (getGalaxyCenterOfMass
        [Location 0 1 False False None None, Location 0 0 False False None None])
     = [Location 0 1 False False None None, Location 0 0 False False None None]"
  by code_simp

section \<open>Errors of star generation\<close>

text \<open>
  Claim C7. For a galaxy type that is none of circular, spiral, doughnut,
  circular-balanced, irregular and custom, \<^verbatim>\<open>generateStars\<close> throws the
  \<^verbatim>\<open>ValidationError\<close> of the default branch, and no star has been created when it does.
\<close>

theorem unsupported_galaxy_type:
  assumes "galaxyType game \<notin> set [''circular'', ''spiral'', ''doughnut'', ''circular-balanced'',
      ''irregular'', ''custom'']"
  shows "generateStars sv rand game starCount playerLimit customJSON customSeed =
     Inl (ValidationError
            (''Galaxy type '' @ galaxyType game @ '' is not supported or has been disabled.''), [])"
  using assms by (simp add: generateStars_def strategyLocations_def)

theorem unsupported_galaxy_type_witness:
  "''hexagonal'' \<notin> set [''circular'', ''spiral'', ''doughnut'', ''circular-balanced'',
      ''irregular'', ''custom'']
   \<and> generateStars (exampleService False exampleLocations) 0
        (exampleGame\<lparr>galaxyType := ''hexagonal''\<rparr>) 4 1 None None =
     Inl (ValidationError ''Galaxy type hexagonal is not supported or has been disabled.'', [])"
  using unsupported_galaxy_type [of "exampleGame\<lparr>galaxyType := ''hexagonal''\<rparr>"
      "exampleService False exampleLocations" 0 4 1 None None]
  by simp

text \<open>
  Claim C8, as amended. \<^verbatim>\<open>generateStars\<close> does not compare the name pool with the number
  of stars and raises no error for a pool that is too small. Whenever the strategy returns
  its locations, each home location with its linked locations, \<^verbatim>\<open>generateStars\<close> returns;
  the \<open>k\<close>-th star it creates is made by the star factory from \<^verbatim>\<open>starNames[k]\<close>, and that is
  \<^verbatim>\<open>undefined\<close> for every \<open>k\<close> from the size of the pool on.
\<close>

theorem name_pool_not_checked:
  assumes "strategyLocations sv rand game starCount playerLimit customJSON customSeed = Inr (locs, rand')"
    and "\<forall>l \<in> set locs. \<not> loc_linked l \<and> loc_homeStar l \<longrightarrow> loc_linkedLocations l \<noteq> None"
  shows "\<exists>res. generateStars sv rand game starCount playerLimit customJSON customSeed = Inr (res, rand')
           \<and> stars res =
               map (\<lambda>(k, l). makeStar sv (galaxyType game = ''custom'')
                      (elemAt (getRandomStarNames sv starCount) k) l)
                 (enumerate 0 (creationOrder locs))
           \<and> (\<forall>k. length (getRandomStarNames sv starCount) \<le> k \<longrightarrow>
                 elemAt (getRandomStarNames sv starCount) k = None)"
proof -
  let ?un = "filter (\<lambda>l. \<not> loc_linked l) locs"
  let ?names = "getRandomStarNames sv starCount"
  have wf: "\<And>l. l \<in> set ?un \<Longrightarrow> loc_homeStar l \<Longrightarrow> loc_linkedLocations l \<noteq> None"
    using assms(2) by auto
  obtain res idx where sl: "starLoop sv (galaxyType game = ''custom'') ?names ?un
        (\<lparr>stars = [], homeStars = [], linkedStars = []\<rparr>, 0) = Inr (res, idx)"
    and st: "stars res = stars \<lparr>stars = [], homeStars = [], linkedStars = []\<rparr> @
        map (\<lambda>(k, l). makeStar sv (galaxyType game = ''custom'') (elemAt ?names k) l)
          (enumerate 0 (creationOrder locs))"
    using starLoop_stars [where locs = ?un and sv = sv and c = "galaxyType game = ''custom''"
        and names = ?names and res = "\<lparr>stars = [], homeStars = [], linkedStars = []\<rparr>"
        and idx = 0, OF wf]
    unfolding creationOrder_def by blast
  have "generateStars sv rand game starCount playerLimit customJSON customSeed = Inr (res, rand')"
    using assms(1) sl by (simp add: generateStars_def Let_def)
  moreover have "\<forall>k. length ?names \<le> k \<longrightarrow> elemAt ?names k = None"
    by (simp add: elemAt_def)
  ultimately show ?thesis
    using st by simp
qed

theorem name_pool_not_checked_witness:
  "strategyLocations (exampleService False exampleLocations) 0 exampleGame 4 1 None None
     = Inr (exampleLocations, 0)
   \<and> map name (stars (fst (projr
        (generateStars (exampleService False exampleLocations) 0 exampleGame 4 1 None None))))
     = [Some ''Sol'', Some ''Vega'', Some ''Rigel'', None]"
proof -
  have s: "strategyLocations (exampleService False exampleLocations) 0 exampleGame 4 1 None None
     = Inr (exampleLocations, 0)"
    by (simp add: strategyLocations_def exampleService_def exampleGame_def)
  have w: "\<forall>l \<in> set exampleLocations.
      \<not> loc_linked l \<and> loc_homeStar l \<longrightarrow> loc_linkedLocations l \<noteq> None"
    by (simp add: exampleLocations_def)
  from name_pool_not_checked [OF s w] obtain res where
    r: "generateStars (exampleService False exampleLocations) 0 exampleGame 4 1 None None = Inr (res, 0)"
    and st: "stars res =
        map (\<lambda>(k, l). makeStar (exampleService False exampleLocations) (galaxyType exampleGame = ''custom'')
               (elemAt (getRandomStarNames (exampleService False exampleLocations) 4) k) l)
          (enumerate 0 (creationOrder exampleLocations))"
    by blast
  have "map name (map (\<lambda>(k, l). makeStar (exampleService False exampleLocations) (galaxyType exampleGame = ''custom'')
               (elemAt (getRandomStarNames (exampleService False exampleLocations) 4) k) l)
          (enumerate 0 (creationOrder exampleLocations))) = [Some ''Sol'', Some ''Vega'', Some ''Rigel'', None]"
    by code_simp
  with r st s show ?thesis by simp
qed

text \<open>
  Four locations and a pool of three names: \<^verbatim>\<open>generateStars\<close> returns four stars, the
  fourth without a name.
\<close>

theorem name_pool_counterexample:
  "length (getRandomStarNames (exampleService False exampleLocations) 4) = 3
   \<and> generateStars (exampleService False exampleLocations) 0 exampleGame 4 1 None None =
       Inr (\<lparr>stars = [(plainStar 0 False)\<lparr>name := Some ''Sol''\<rparr>,
                       (plainStar 1 False)\<lparr>name := Some ''Vega''\<rparr>,
                       (plainStar 2 False)\<lparr>name := Some ''Rigel''\<rparr>,
                       (plainStar 3 False)\<lparr>name := None\<rparr>],
             homeStars = [], linkedStars = []\<rparr>, 0)"
  by code_simp

section \<open>Black holes\<close>

text \<open>
  Claim C9. When the shuffle returns a permutation, every star the black-hole pass
  selects (the first \<open>count\<close> stars of the shuffled eligible stars) carries
  \<^verbatim>\<open>isBlackHole\<close> afterwards and has each of its three resource channels replaced by
  \<^verbatim>\<open>Math.ceil\<close> of the product of its previous value and \<^verbatim>\<open>0.2\<close>, whatever the
  split-resources mode. For every integer \<open>x \<ge> 0\<close> that value is at most \<open>x\<close>, so no channel
  increases; and for \<open>0 \<le> x < 2\<^sup>5\<^sup>3\<close>, the integers a double holds exactly, it is \<open>\<lceil>x / 5\<rceil>\<close>.
\<close>

theorem black_hole_resources:
  assumes "permuting (shuffle sv)"
  shows "(\<forall>i \<in> set (winners sv rand isBlackHole (featureCount (length ss) pc P) ss).
            i < length ss
            \<and> isBlackHole (fst (generateBlackHoles sv rand game ss pc P) ! i)
            \<and> naturalResources (fst (generateBlackHoles sv rand game ss pc P) ! i) =
              \<lparr>economy = of_int \<lceil>js_mul (economy (naturalResources (ss ! i))) (toDouble (1 / 5))\<rceil>,
               industry = of_int \<lceil>js_mul (industry (naturalResources (ss ! i))) (toDouble (1 / 5))\<rceil>,
               science = of_int \<lceil>js_mul (science (naturalResources (ss ! i))) (toDouble (1 / 5))\<rceil>\<rparr>)
       \<and> generateBlackHoles (sv\<lparr>isSplitResources := mode\<rparr>) rand game ss pc P
           = generateBlackHoles sv rand game ss pc P
       \<and> (\<forall>x. 0 \<le> x \<longrightarrow> \<lceil>js_mul (of_int x) (toDouble (1 / 5))\<rceil> \<le> x)
       \<and> (\<forall>x. 0 \<le> x \<and> x < 2 ^ 53 \<longrightarrow>
            \<lceil>js_mul (of_int x) (toDouble (1 / 5))\<rceil> = \<lceil>(of_int x :: rat) / 5\<rceil>)"
proof (intro conjI ballI allI impI)
  fix i
  assume i: "i \<in> set (winners sv rand isBlackHole (featureCount (length ss) pc P) ss)"
  let ?ss' = "fst (generateBlackHoles sv rand game ss pc P)"
  from winners_subset [OF assms i] show len: "i < length ss" by simp
  from generateBlackHoles_touches [OF assms, of rand ss pc P game] i len
  have b: "?ss' ! i = blackHoleBody (ss ! i)"
    by (simp add: touches_def)
  then show "isBlackHole (?ss' ! i)"
    by (simp add: blackHoleBody_def Let_def)
  from b show "naturalResources (?ss' ! i) =
      \<lparr>economy = of_int \<lceil>js_mul (economy (naturalResources (ss ! i))) (toDouble (1 / 5))\<rceil>,
       industry = of_int \<lceil>js_mul (industry (naturalResources (ss ! i))) (toDouble (1 / 5))\<rceil>,
       science = of_int \<lceil>js_mul (science (naturalResources (ss ! i))) (toDouble (1 / 5))\<rceil>\<rparr>"
    by (cases "ss ! i") (simp add: blackHoleBody_def blackHoleResource_def Let_def)
next
  show "generateBlackHoles (sv\<lparr>isSplitResources := mode\<rparr>) rand game ss pc P
      = generateBlackHoles sv rand game ss pc P"
    by (simp add: generateBlackHoles_def)
next
  fix x :: int
  assume "0 \<le> x"
  then show "\<lceil>js_mul (of_int x) (toDouble (1 / 5))\<rceil> \<le> x"
    by (rule blackHoleResource_le)
next
  fix x :: int
  assume "0 \<le> x \<and> x < 2 ^ 53"
  then show "\<lceil>js_mul (of_int x) (toDouble (1 / 5))\<rceil> = \<lceil>(of_int x :: rat) / 5\<rceil>"
    using blackHoleResource_below(1) by blast
qed

theorem black_hole_resources_witness:
  "permuting (shuffle (exampleService True []))
   \<and> winners (exampleService True []) 0 isBlackHole (featureCount (length exampleStars) 1 100)
         exampleStars = [2, 1]
   \<and> map isBlackHole
         (fst (generateBlackHoles (exampleService True []) 0 exampleGame exampleStars 1 100))
       = [False, True, True]
   \<and> map naturalResources exampleStars
       = [\<lparr>economy = 10, industry = 23, science = 50\<rparr>,
          \<lparr>economy = 10, industry = 23, science = 50\<rparr>,
          \<lparr>economy = 10, industry = 23, science = 50\<rparr>]
   \<and> naturalResources
         (fst (generateBlackHoles (exampleService True []) 0 exampleGame exampleStars 1 100) ! 1)
       = \<lparr>economy = 2, industry = 5, science = 10\<rparr>
   \<and> naturalResources
         (fst (generateBlackHoles (exampleService True []) 0 exampleGame exampleStars 1 100) ! 2)
       = \<lparr>economy = 2, industry = 5, science = 10\<rparr>
   \<and> \<lceil>js_mul (of_int 23) (toDouble (1 / 5))\<rceil> \<le> (23 :: int)
   \<and> \<lceil>js_mul (of_int 23) (toDouble (1 / 5))\<rceil> = \<lceil>(of_int 23 :: rat) / 5\<rceil>"
proof -
  let ?ss' = "fst (generateBlackHoles (exampleService True []) 0 exampleGame exampleStars 1 100)"
  note th = black_hole_resources [where sv = "exampleService True []" and ss = exampleStars
      and rand = 0 and game = exampleGame and pc = 1 and P = 100 and mode = "\<lambda>game. False",
      OF permuting_example]
  have m: "winners (exampleService True []) 0 isBlackHole (featureCount (length exampleStars) 1 100)
         exampleStars = [2, 1]"
    by code_simp
  have f: "map isBlackHole ?ss' = [False, True, True]"
    by code_simp
  have v: "exampleStars ! Suc 0 = plainStar 1 False" "exampleStars ! 2 = plainStar 2 False"
    by (simp_all add: exampleStars_def)
  have c: "\<lceil>js_mul 10 (toDouble (1 / 5))\<rceil> = 2" "\<lceil>js_mul 23 (toDouble (1 / 5))\<rceil> = 5"
    "\<lceil>js_mul 50 (toDouble (1 / 5))\<rceil> = 10"
    by code_simp+
  from th m have "\<forall>i \<in> {1, 2}. naturalResources (?ss' ! i) =
      \<lparr>economy = of_int \<lceil>js_mul (economy (naturalResources (exampleStars ! i))) (toDouble (1 / 5))\<rceil>,
       industry = of_int \<lceil>js_mul (industry (naturalResources (exampleStars ! i))) (toDouble (1 / 5))\<rceil>,
       science = of_int \<lceil>js_mul (science (naturalResources (exampleStars ! i))) (toDouble (1 / 5))\<rceil>\<rparr>"
    by simp
  then have r: "naturalResources (?ss' ! 1) = \<lparr>economy = 2, industry = 5, science = 10\<rparr>"
    "naturalResources (?ss' ! 2) = \<lparr>economy = 2, industry = 5, science = 10\<rparr>"
    by (simp_all add: v plainStar_def c)
  have "0 \<le> (23::int) \<and> (23::int) < 2 ^ 53"
    by simp
  with th have e: "\<lceil>js_mul (of_int 23) (toDouble (1 / 5))\<rceil> = \<lceil>(of_int 23 :: rat) / 5\<rceil>"
    by blast
  have "0 \<le> (23::int)" by simp
  with th have l: "\<lceil>js_mul (of_int 23) (toDouble (1 / 5))\<rceil> \<le> (23 :: int)"
    by blast
  have o: "map naturalResources exampleStars
       = [\<lparr>economy = 10, industry = 23, science = 50\<rparr>,
          \<lparr>economy = 10, industry = 23, science = 50\<rparr>,
          \<lparr>economy = 10, industry = 23, science = 50\<rparr>]"
    by (simp add: exampleStars_def plainStar_def)
  from permuting_example m f o r e l show ?thesis
    by (intro conjI)
qed

section \<open>Safety of the pairing loop\<close>

text \<open>
  Claim C10. With \<open>c\<close> the wormhole count and the shuffle a permutation: when at least
  \<open>2 \<cdot> c\<close> stars pass the filter of the wormhole pass (not a home star, not paired, not
  dead), every index the pairing loop reads is inside \<^verbatim>\<open>wormHoleStars\<close>, both members of
  every pair exist and the pass returns; when fewer stars pass the filter, the loop reads
  past the end of \<^verbatim>\<open>wormHoleStars\<close> and the pass ends in the \<^verbatim>\<open>TypeError\<close> of dereferencing
  \<^verbatim>\<open>undefined\<close>.
\<close>

theorem wormhole_pairs_safe:
  assumes p: "permuting (shuffle sv)"
  shows "(2 * wormHoleCount (length ss) playerCount percentage
            \<le> int (length (applicableStars (eligible sv paired) ss))
          \<longrightarrow> (\<exists>ss' rand'. generateWormHoles sv rand game ss playerCount percentage = Inr (ss', rand'))
              \<and> (\<forall>i < nat (wormHoleCount (length ss) playerCount percentage).
                    elemAt (winners sv rand paired
                       (wormHoleCount (length ss) playerCount percentage * 2) ss) (i * 2) \<noteq> None
                  \<and> elemAt (winners sv rand paired
                       (wormHoleCount (length ss) playerCount percentage * 2) ss) (i * 2 + 1) \<noteq> None))
       \<and> (int (length (applicableStars (eligible sv paired) ss))
            < 2 * wormHoleCount (length ss) playerCount percentage
          \<longrightarrow> generateWormHoles sv rand game ss playerCount percentage = Inl TypeError)"
proof -
  let ?c = "wormHoleCount (length ss) playerCount percentage"
  let ?ws = "winners sv rand paired (?c * 2) ss"
  let ?app = "applicableStars (eligible sv paired) ss"
  have enough: "(\<exists>ss' rand'. generateWormHoles sv rand game ss playerCount percentage = Inr (ss', rand'))
      \<and> (\<forall>i < nat ?c. elemAt ?ws (i * 2) \<noteq> None \<and> elemAt ?ws (i * 2 + 1) \<noteq> None)"
    if a: "2 * ?c \<le> int (length ?app)"
  proof -
    have rng: "\<forall>i \<in> set [0..<nat ?c]. i * 2 + 1 < length ?ws"
      by (rule wormHole_in_range [OF p a])
    from wormHoleLoop_returns [OF this, of ss] obtain ss' where
      "wormHoleLoop ?ws [0..<nat ?c] ss = Inr ss'" by blast
    then have "\<exists>ss' rand'. generateWormHoles sv rand game ss playerCount percentage = Inr (ss', rand')"
      by (simp add: generateWormHoles_eq)
    moreover have "\<forall>i < nat ?c. elemAt ?ws (i * 2) \<noteq> None \<and> elemAt ?ws (i * 2 + 1) \<noteq> None"
    proof (intro allI impI)
      fix i assume "i < nat ?c"
      with rng have "i * 2 + 1 < length ?ws" by simp
      then show "elemAt ?ws (i * 2) \<noteq> None \<and> elemAt ?ws (i * 2 + 1) \<noteq> None"
        by (simp add: elemAt_def)
    qed
    ultimately show ?thesis by blast
  qed
  have short: "generateWormHoles sv rand game ss playerCount percentage = Inl TypeError"
    if a: "int (length ?app) < 2 * ?c"
  proof -
    from a have c: "0 < ?c" by linarith
    then have "length ?ws = length ?app"
      using a length_winners [OF p, of "?c * 2" rand paired ss] by simp
    then have "length ?ws \<le> (nat ?c - 1) * 2 + 1"
      using a c by linarith
    moreover have "nat ?c - 1 \<in> set [0..<nat ?c]" using c by simp
    ultimately have "\<exists>i \<in> set [0..<nat ?c]. length ?ws \<le> i * 2 + 1" by blast
    from wormHoleLoop_TypeError [OF this, of ss]
    show ?thesis by (simp add: generateWormHoles_eq)
  qed
  show ?thesis using enough short by blast
qed

theorem wormhole_pairs_safe_witness:
  "permuting (shuffle (exampleService False []))
   \<and> 2 * wormHoleCount (length (exampleGalaxy 100 4)) 4 10
        \<le> int (length (applicableStars (eligible (exampleService False []) paired)
              (exampleGalaxy 100 4)))
   \<and> (\<exists>ss' rand'.
         generateWormHoles (exampleService False []) 0 exampleGame (exampleGalaxy 100 4) 4 10
           = Inr (ss', rand'))
   \<and> int (length (applicableStars (eligible (exampleService False []) paired) pairedGalaxy))
        < 2 * wormHoleCount (length pairedGalaxy) 1 100
   \<and> generateWormHoles (exampleService False []) 0 exampleGame pairedGalaxy 1 100
        = Inl TypeError"
proof -
  have len: "length (exampleGalaxy 100 4) = 100"
    by (simp add: exampleGalaxy_def)
  have app: "length (applicableStars (eligible (exampleService False []) paired)
      (exampleGalaxy 100 4)) = 96"
    by code_simp
  have a: "2 * wormHoleCount (length (exampleGalaxy 100 4)) 4 10
        \<le> int (length (applicableStars (eligible (exampleService False []) paired)
              (exampleGalaxy 100 4)))"
    by (simp add: len app wormHoleCount_scenario)
  have b: "int (length (applicableStars (eligible (exampleService False []) paired) pairedGalaxy))
        < 2 * wormHoleCount (length pairedGalaxy) 1 100"
    by code_simp
  from wormhole_pairs_safe [OF permuting_example, where ss = "exampleGalaxy 100 4"
      and playerCount = 4 and percentage = 10 and rand = 0 and game = exampleGame] a
  have "\<exists>ss' rand'.
         generateWormHoles (exampleService False []) 0 exampleGame (exampleGalaxy 100 4) 4 10
           = Inr (ss', rand')"
    by blast
  moreover from wormhole_pairs_safe [OF permuting_example, where ss = pairedGalaxy
      and playerCount = 1 and percentage = 100 and rand = 0 and game = exampleGame] b
  have "generateWormHoles (exampleService False []) 0 exampleGame pairedGalaxy 1 100
        = Inl TypeError"
    by blast
  ultimately show ?thesis
    using a b permuting_example by simp
qed

end
